theory Spec2Isabelle
  imports Complex_Main
begin

section \<open>Python and numpy values\<close>

text \<open>
  The module \<^verbatim>\<open>temfpy/econometrics.py\<close> is embedded function by function. Every
  \<^verbatim>\<open>raise\<close> of the interpreter or of a library, and the \<^verbatim>\<open>sys.exit\<close> of the module
  itself, is a value of \<open>exn\<close>; a function that can fail returns \<open>exn + 'a\<close> with the
  exception on the left.
\<close>

datatype exn =
    SystemExit string
  | KeyError string
  | AttributeError string
  | ValueError string
  | TypeError string
  | ExternalError string

definition and_then :: "exn + 'a \<Rightarrow> ('a \<Rightarrow> exn + 'b) \<Rightarrow> exn + 'b" where
  "and_then m f = (case m of Inl e \<Rightarrow> Inl e | Inr v \<Rightarrow> f v)"

text \<open>
  A float64 is a real number or one of the three special values. The subtraction on
  line 90, whose result is cut to an integer, is rounded as IEEE 754 prescribes
  (\<open>float64_sub\<close> below); the other arithmetic on finite values is the arithmetic of
  the reals.
\<close>

datatype npfloat = Finite real | PosInf | NegInf | NaN

text \<open>
  Rounding to binary64, to nearest with ties to even: the exponent of \<open>x\<close> is
  \<open>\<lfloor>log\<^sub>2 |x|\<rfloor>\<close>, at least \<open>-1022\<close> (below that the numbers are subnormal), the
  significand has 53 bits, so \<open>x\<close> is rounded to a multiple of \<open>2\<close> to the exponent
  minus 52; a result of magnitude \<open>2\<^sup>1\<^sup>0\<^sup>2\<^sup>4\<close> or more overflows to an infinity.
\<close>

definition pow2 :: "int \<Rightarrow> real" where
  "pow2 k = (if 0 \<le> k then 2 ^ nat k else 1 / 2 ^ nat (- k))"

definition round_half_even :: "real \<Rightarrow> int" where
  "round_half_even r =
     (let f = \<lfloor>r\<rfloor> in
      if r - of_int f < 1 / 2 then f
      else if 1 / 2 < r - of_int f then f + 1
      else if even f then f else f + 1)"

definition float64_exponent :: "real \<Rightarrow> int" where
  "float64_exponent x = max (- 1022) \<lfloor>log 2 \<bar>x\<bar>\<rfloor>"

definition fl64 :: "real \<Rightarrow> npfloat" where
  "fl64 x =
     (if x = 0 then Finite 0
      else
        let q = pow2 (float64_exponent x - 52);
            r = of_int (round_half_even (x / q)) * q
        in if 2 ^ 1024 \<le> r then PosInf
           else if r \<le> - (2 ^ 1024) then NegInf
           else Finite r)"

text \<open>The float64 difference of two float64 values.\<close>

definition float64_sub :: "real \<Rightarrow> real \<Rightarrow> npfloat" where
  "float64_sub a b = fl64 (a - b)"

fun is_finite :: "npfloat \<Rightarrow> bool" where
  "is_finite (Finite r) = True"
| "is_finite PosInf = False"
| "is_finite NegInf = False"
| "is_finite NaN = False"

text \<open>\<^verbatim>\<open>np.log\<close> on one entry: \<open>-inf\<close> at zero and \<open>nan\<close> below it (numpy warns, it does not raise).\<close>

definition np_log :: "real \<Rightarrow> npfloat" where
  "np_log p = (if p < 0 then NaN else if p = 0 then NegInf else Finite (ln p))"

fun np_add :: "npfloat \<Rightarrow> npfloat \<Rightarrow> npfloat" where
  "np_add NaN b = NaN"
| "np_add a NaN = NaN"
| "np_add (Finite a) (Finite b) = Finite (a + b)"
| "np_add (Finite a) PosInf = PosInf"
| "np_add (Finite a) NegInf = NegInf"
| "np_add PosInf NegInf = NaN"
| "np_add NegInf PosInf = NaN"
| "np_add PosInf b = PosInf"
| "np_add NegInf b = NegInf"

definition np_sum :: "npfloat list \<Rightarrow> npfloat" where
  "np_sum xs = foldl np_add (Finite 0) xs"

text \<open>
  \<^verbatim>\<open>ndarray.clip(min=lo)\<close> returns a new array; the array it is called on is left as
  it was (no \<^verbatim>\<open>out=\<close> argument is given anywhere in the module).
\<close>

definition ndarray_clip :: "real \<Rightarrow> real list \<Rightarrow> real list" where
  "ndarray_clip lo xs = map (max lo) xs"

text \<open>\<^verbatim>\<open>np.unique\<close>: the sorted distinct entries.\<close>

definition np_unique :: "'a::linorder list \<Rightarrow> 'a list" where
  "np_unique xs = sort (remdups xs)"

text \<open>\<^verbatim>\<open>"{}".format(i)\<close> for a non-negative integer: its decimal digits.\<close>

fun str_nat :: "nat \<Rightarrow> string" where
  "str_nat n =
     (if n < 10 then [''0123456789'' ! n]
      else str_nat (n div 10) @ [''0123456789'' ! (n mod 10)])"

declare str_nat.simps [simp del]

subsection \<open>Two-dimensional arrays\<close>

text \<open>
  A 2-d array is its list of rows; the number of columns is kept beside the rows so
  that the shape of an array with no rows is not lost.
\<close>

datatype array2 = Array2 (n_cols: nat) (rows: "real list list")

definition np_zeros :: "nat \<Rightarrow> nat \<Rightarrow> real list list" where
  "np_zeros r c = replicate r (replicate c 0)"

definition np_ones :: "nat \<Rightarrow> nat \<Rightarrow> real list list" where
  "np_ones r c = replicate r (replicate c 1)"

definition np_eye :: "nat \<Rightarrow> real list list" where
  "np_eye d = map (\<lambda>i. map (\<lambda>j. if i = j then 1 else 0) [0..<d]) [0..<d]"

definition mat_add :: "real list list \<Rightarrow> real list list \<Rightarrow> real list list" where
  "mat_add A B = map2 (\<lambda>r s. map2 (+) r s) A B"

text \<open>
  \<^verbatim>\<open>x.dot(bethas)\<close> for \<open>x\<close> of shape \<open>(n, n_var)\<close> and \<open>bethas\<close> of shape
  \<open>(n_var, m)\<close>: the inner dimensions agree by construction of \<open>bethas\<close>.
\<close>

definition np_dot :: "array2 \<Rightarrow> real list list \<Rightarrow> nat \<Rightarrow> real list list" where
  "np_dot x B m =
     map (\<lambda>row. map (\<lambda>j. sum_list (map2 (*) row (map (\<lambda>r. r ! j) B))) [0..<m]) (rows x)"

text \<open>
  Assignment to a 1-d slice of length \<open>k\<close>, \<^verbatim>\<open>target[...] = src\<close>: numpy takes a source
  of the same length, broadcasts a source of length one, and raises otherwise.
\<close>

definition broadcast_to :: "nat \<Rightarrow> real list \<Rightarrow> exn + real list" where
  "broadcast_to k src =
     (if length src = k then Inr src
      else if length src = 1 then Inr (replicate k (hd src))
      else Inl (ValueError ''could not broadcast input array''))"

subsection \<open>The labeled parameter vector\<close>

text \<open>
  A \<^verbatim>\<open>pd.Series\<close> over a two-level \<^verbatim>\<open>MultiIndex\<close>: the entries in order, each under
  its key \<open>(level 0, level 1)\<close>. The second level is a coefficient name or, in the
  covariance block, a position. The data frame handed to the likelihood holds such
  series under column names.
\<close>

datatype label = Name string | Pos nat

type_synonym series = "((string \<times> label) \<times> real) list"

type_synonym params_frame = "(string \<times> series) list"

text \<open>\<^verbatim>\<open>params[col]\<close>: the column, or \<^verbatim>\<open>KeyError\<close>.\<close>

definition frame_getitem :: "params_frame \<Rightarrow> string \<Rightarrow> exn + series" where
  "frame_getitem df col =
     (case map_of df col of None \<Rightarrow> Inl (KeyError col) | Some s \<Rightarrow> Inr s)"

text \<open>
  \<^verbatim>\<open>series[key].to_numpy()\<close> for a level-0 key: the values of all entries under that
  key, in order, or \<^verbatim>\<open>KeyError\<close> when there is none.
\<close>

definition series_getitem :: "series \<Rightarrow> string \<Rightarrow> exn + real list" where
  "series_getitem s key =
     (let blk = filter (\<lambda>e. fst (fst e) = key) s
      in if blk = [] then Inl (KeyError key) else Inr (map snd blk))"

section \<open>The likelihood evaluator\<close>

text \<open>
  The integration-method module \<^verbatim>\<open>temfpy.integration_methods\<close> is a parameter: the
  functions it defines, by name (its other attributes are not modelled). A routine takes
  \<open>(u_prime, cov, y)\<close> and returns one probability per observation, or raises.
  \<^verbatim>\<open>getattr\<close> on a name the module does not define raises \<^verbatim>\<open>AttributeError\<close>.
\<close>

type_synonym routine = "real list list \<Rightarrow> real list list \<Rightarrow> int list \<Rightarrow> exn + real list"

type_synonym integration_methods = "string \<Rightarrow> routine option"

definition getattr :: "integration_methods \<Rightarrow> string \<Rightarrow> exn + routine" where
  "getattr lib name =
     (case lib name of None \<Rightarrow> Inl (AttributeError name) | Some f \<Rightarrow> Inr f)"

definition cov_structure_msg :: string where
  "cov_structure_msg = ''cov_structure must either be iid or free''"

text \<open>
  Lines 144-148: row \<open>i\<close> of the lower triangle is filled from the slice
  \<^verbatim>\<open>covariance[a : a + k]\<close> with \<open>k = i + 1\<close>, and the offset \<open>a\<close> advances by \<open>k\<close>.
  A Python slice past the end of the vector is cut short, not an error.
\<close>

fun fill_lower :: "real list \<Rightarrow> nat list \<Rightarrow> real list list \<Rightarrow> nat \<Rightarrow> exn + real list list" where
  "fill_lower covariance [] cov a = Inr cov"
| "fill_lower covariance (i # is) cov a =
     (let k = i + 1 in
      and_then (broadcast_to (i + 1) (take k (drop a covariance)))
        (\<lambda>src. fill_lower covariance is (cov[i := src @ drop (i + 1) (cov ! i)]) (a + k)))"

text \<open>
  Lines 150-151: \<^verbatim>\<open>cov[i, (i + 1):] = cov[(i + 1):, i]\<close>. Both sides have
  \<open>d - (i + 1)\<close> entries, so the assignment never raises.
\<close>

fun mirror_upper :: "nat list \<Rightarrow> real list list \<Rightarrow> real list list" where
  "mirror_upper [] cov = cov"
| "mirror_upper (i # is) cov =
     mirror_upper is (cov[i := take (i + 1) (cov ! i) @ map (\<lambda>r. r ! i) (drop (i + 1) cov)])"

text \<open>Lines 142-151, for \<open>d = n_choices - 1 \<ge> 0\<close>.\<close>

definition unpack_covariance :: "real list \<Rightarrow> nat \<Rightarrow> exn + real list list" where
  "unpack_covariance covariance d =
     and_then (fill_lower covariance [0..<d] (np_zeros d d) 0)
       (\<lambda>cov. Inr (mirror_upper [0..<d] cov))"

text \<open>
  Lines 136-151. With no distinct choice at all \<open>n_choices - 1\<close> is \<open>-1\<close>, and
  \<^verbatim>\<open>np.eye\<close> and \<^verbatim>\<open>np.zeros\<close> reject a negative dimension; under "free" the lookup
  of the covariance block comes first.
\<close>

definition covariance_block :: "string \<Rightarrow> params_frame \<Rightarrow> nat \<Rightarrow> exn + real list list" where
  "covariance_block cov_structure params n_choices =
     (if cov_structure = ''iid'' then
        (if n_choices = 0 then Inl (ValueError ''negative dimensions are not allowed'')
         else Inr (mat_add (np_eye (n_choices - 1)) (np_ones (n_choices - 1) (n_choices - 1))))
      else
        and_then (frame_getitem params ''value'') (\<lambda>value.
        and_then (series_getitem value ''covariance'') (\<lambda>covariance.
          if n_choices = 0 then Inl (ValueError ''negative dimensions are not allowed'')
          else unpack_covariance covariance (n_choices - 1))))"

text \<open>
  Lines 155-156: \<^verbatim>\<open>bethas[:, i] = params["value"]["choice_i"].to_numpy()\<close> for
  \<open>i\<close> in \<^verbatim>\<open>range(n_choices - 1)\<close>.
\<close>

definition assign_column :: "real list list \<Rightarrow> nat \<Rightarrow> real list \<Rightarrow> real list list" where
  "assign_column B i src = map2 (\<lambda>row v. row[i := v]) B src"

fun fill_bethas :: "params_frame \<Rightarrow> nat \<Rightarrow> nat list \<Rightarrow> real list list \<Rightarrow> exn + real list list" where
  "fill_bethas params n_var [] bethas = Inr bethas"
| "fill_bethas params n_var (i # is) bethas =
     and_then (frame_getitem params ''value'') (\<lambda>value.
     and_then (series_getitem value (''choice_'' @ str_nat i)) (\<lambda>blk.
     and_then (broadcast_to n_var blk) (\<lambda>src.
       fill_bethas params n_var is (assign_column bethas i src))))"

text \<open>Lines 153-156.\<close>

definition bethas_block :: "params_frame \<Rightarrow> nat \<Rightarrow> nat \<Rightarrow> exn + real list list" where
  "bethas_block params n_var n_choices =
     fill_bethas params n_var [0..<n_choices - 1] (np_zeros n_var n_choices)"

text \<open>
  \<^verbatim>\<open>_multinomial_probit_loglikeobs\<close>. The result of \<^verbatim>\<open>choice_prob_obs.clip(min=1e-250)\<close>
  on line 167 is not bound to anything: the logarithm on line 169 is taken of
  \<open>choice_prob_obs\<close> itself.
\<close>

definition multinomial_probit_loglikeobs ::
  "integration_methods \<Rightarrow> params_frame \<Rightarrow> int list \<Rightarrow> array2 \<Rightarrow> string \<Rightarrow> string
     \<Rightarrow> exn + npfloat list" where
  "multinomial_probit_loglikeobs lib params y x cov_structure integration_method =
     (if cov_structure \<noteq> ''iid'' \<and> cov_structure \<noteq> ''free''
      then Inl (SystemExit cov_structure_msg)
      else
        let n_var = n_cols x;
            n_choices = length (np_unique y)
        in
        and_then (covariance_block cov_structure params n_choices) (\<lambda>cov.
        and_then (bethas_block params n_var n_choices) (\<lambda>bethas.
          let u_prime = np_dot x bethas n_choices in
          and_then
            (if cov_structure = ''gauss_integration''
             then and_then (getattr lib ''gauss_integration'') (\<lambda>f. f u_prime cov y)
             else and_then (getattr lib integration_method) (\<lambda>f. f u_prime cov y))
            (\<lambda>choice_prob_obs.
               let discarded = ndarray_clip (1 / 10 ^ 250) choice_prob_obs;
                   loglikeobs = map np_log choice_prob_obs
               in Inr loglikeobs))))"

text \<open>\<^verbatim>\<open>_multinomial_probit_loglike\<close>: the sum of the per-observation values.\<close>

definition multinomial_probit_loglike ::
  "integration_methods \<Rightarrow> params_frame \<Rightarrow> int list \<Rightarrow> array2 \<Rightarrow> string \<Rightarrow> string
     \<Rightarrow> exn + npfloat" where
  "multinomial_probit_loglike lib params y x cov_structure integration_method =
     and_then (multinomial_probit_loglikeobs lib params y x cov_structure integration_method)
       (\<lambda>obs. Inr (np_sum obs))"

section \<open>Data preparation\<close>

text \<open>
  The formula parser \<^verbatim>\<open>patsy.dmatrices(formula, data, return_type="dataframe")\<close> is
  a parameter. It reads a data frame whose cells may be missing (\<open>None\<close>) and returns
  the outcome and the design matrix as two numeric frames over the same rows, or raises.
  The cells of the two frames are float64 values.
\<close>

datatype frame = Frame (columns: "string list") (cells: "real option list list")

datatype design = Design (names: "string list") (matrix: "real list list")

type_synonym parser = "string \<Rightarrow> frame \<Rightarrow> exn + (design \<times> design)"

text \<open>
  \<^verbatim>\<open>pd.concat([y, x], axis=1)\<close> for two frames over the same row index puts their
  columns side by side; \<^verbatim>\<open>dropna()\<close> keeps the rows without a missing cell.
\<close>

definition pd_concat_axis1 :: "design \<Rightarrow> design \<Rightarrow> frame" where
  "pd_concat_axis1 y x =
     Frame (names y @ names x) (map2 (\<lambda>r s. map Some (r @ s)) (matrix y) (matrix x))"

definition dropna :: "frame \<Rightarrow> frame" where
  "dropna f = Frame (columns f) (filter (\<lambda>r. None \<notin> set r) (cells f))"

text \<open>
  \<^verbatim>\<open>np.random.rand(k)\<close> reads the ambient generator, here the sequence \<open>rnd\<close> of its
  draws; a negative \<open>k\<close> is rejected.
\<close>

definition np_random_rand :: "(nat \<Rightarrow> real) \<Rightarrow> int \<Rightarrow> exn + real list" where
  "np_random_rand rnd k =
     (if k < 0 then Inl (ValueError ''negative dimensions are not allowed'')
      else Inr (map rnd [0..<nat k]))"

text \<open>Lines 53-59 and 73-79: one label per choice and variable, choice by choice.\<close>

definition coefficient_labels :: "string list \<Rightarrow> nat \<Rightarrow> (string \<times> label) list" where
  "coefficient_labels var_names n_choices =
     concat (map (\<lambda>choice.
        map (\<lambda>name. (''choice_'' @ str_nat choice, Name (''betha_'' @ name))) var_names)
        [0..<n_choices - 1])"

text \<open>Lines 65-69: the entries \<open>(i, j)\<close> with \<open>j \<le> i\<close>, row by row.\<close>

definition lower_triangle :: "real list list \<Rightarrow> nat \<Rightarrow> real list" where
  "lower_triangle covariance d =
     concat (map (\<lambda>i. concat (map (\<lambda>j. if j \<le> i then [covariance ! i ! j] else []) [0..<d]))
       [0..<d])"

text \<open>
  \<^verbatim>\<open>pd.Series(data=..., index=pd.MultiIndex.from_tuples(index_tuples))\<close>:
  \<^verbatim>\<open>from_tuples\<close> raises on an empty list (it cannot infer the number of levels), and
  the constructor raises when data and index differ in length.
\<close>

definition pd_Series :: "real list \<Rightarrow> (string \<times> label) list \<Rightarrow> exn + series" where
  "pd_Series data index_tuples =
     (if index_tuples = [] then Inl (TypeError ''Cannot infer number of levels from empty list'')
      else if length data \<noteq> length index_tuples
      then Inl (ValueError ''Length of values does not match length of index'')
      else Inr (zip index_tuples data))"

text \<open>
  Line 90, \<^verbatim>\<open>y - y.min()\<close>: every column minus its own minimum, in float64. A frame
  without rows stays without rows.
\<close>

definition list_min :: "real list \<Rightarrow> real" where
  "list_min xs = fold min (tl xs) (hd xs)"

datatype float_frame = FloatFrame (fnames: "string list") (fcells: "npfloat list list")

definition sub_min :: "design \<Rightarrow> float_frame" where
  "sub_min y =
     FloatFrame (names y)
       (map (\<lambda>r. map (\<lambda>j. float64_sub (r ! j) (list_min (map (\<lambda>s. s ! j) (matrix y))))
                  [0..<length (names y)])
          (matrix y))"

text \<open>
  Line 93, \<^verbatim>\<open>y.to_numpy(dtype=np.int64).reshape(len(y))\<close>. The conversion is numpy's
  cast from float64 to int64: it cuts the fraction off, and for a value outside the
  64-bit range, an infinity or a nan it gives the smallest int64 (the result of the
  conversion instruction on x86-64; C leaves this case undefined). The reshape needs as
  many cells as rows.
\<close>

definition astype_int64 :: "npfloat \<Rightarrow> int" where
  "astype_int64 v =
     (case v of
        Finite r \<Rightarrow>
          (let t = (if 0 \<le> r then \<lfloor>r\<rfloor> else \<lceil>r\<rceil>)
           in if - (2 ^ 63) \<le> t \<and> t < 2 ^ 63 then t else - (2 ^ 63))
      | PosInf \<Rightarrow> - (2 ^ 63)
      | NegInf \<Rightarrow> - (2 ^ 63)
      | NaN \<Rightarrow> - (2 ^ 63))"

definition to_int64_vector :: "float_frame \<Rightarrow> exn + int list" where
  "to_int64_vector y =
     (if fcells y = [] then Inr []
      else if length (fnames y) \<noteq> 1 then Inl (ValueError ''cannot reshape array'')
      else Inr (map (\<lambda>r. astype_int64 (hd r)) (fcells y)))"

text \<open>Lines 42-44: parse, drop the incomplete rows, parse again.\<close>

definition parse_cleaned :: "parser \<Rightarrow> string \<Rightarrow> frame \<Rightarrow> exn + (design \<times> design)" where
  "parse_cleaned dmatrices formula data =
     and_then (dmatrices formula data) (\<lambda>(y, x).
       let data = dropna (pd_concat_axis1 y x) in dmatrices formula data)"

text \<open>
  \<^verbatim>\<open>_multinomial_processing\<close>. The product \<open>n_choices * (n_choices - 1)\<close> on line 81 is
  even, so the float division by two and \<^verbatim>\<open>int(j)\<close> give the exact half.
\<close>

definition multinomial_processing ::
  "parser \<Rightarrow> (nat \<Rightarrow> real) \<Rightarrow> string \<Rightarrow> frame \<Rightarrow> string \<Rightarrow> exn + (int list \<times> array2 \<times> series)" where
  "multinomial_processing dmatrices rnd formula data cov_structure =
     (if cov_structure \<noteq> ''iid'' \<and> cov_structure \<noteq> ''free''
      then Inl (SystemExit cov_structure_msg)
      else
        and_then (parse_cleaned dmatrices formula data) (\<lambda>(y, x).
        let n_var = length (names x);
            n_choices = length (np_unique (concat (matrix y)))
        in
        and_then (np_random_rand rnd (int n_var * (int n_choices - 1))) (\<lambda>draws.
        let bethas = map (\<lambda>v. v * 0.1) draws in
        and_then
          (if cov_structure = ''iid'' then
             Inr (coefficient_labels (names x) n_choices, bethas)
           else if n_choices = 0 then Inl (ValueError ''negative dimensions are not allowed'')
           else
             let covariance = np_eye (n_choices - 1);
                 cov = lower_triangle covariance (n_choices - 1);
                 j = (int n_choices * (int n_choices - 1)) div 2
             in Inr (coefficient_labels (names x) n_choices
                       @ map (\<lambda>i. (''covariance'', Pos i)) [0..<nat j],
                     bethas @ cov))
          (\<lambda>(index_tuples, start_params).
        and_then (pd_Series start_params index_tuples) (\<lambda>params_sr.
        and_then (to_int64_vector (sub_min y)) (\<lambda>yv.
          Inr (yv, Array2 (length (names x)) (matrix x), params_sr)))))))"

section \<open>The estimation driver\<close>

text \<open>
  The constraints are Python dictionaries with string keys, kept as written. The
  maximizer \<^verbatim>\<open>estimagic.optimization.optimize.maximize\<close> is a parameter; it receives
  the criterion, the parameter frame, the algorithm name, the keyword arguments of the
  criterion and the constraints.
\<close>

datatype pyval = Str string | Key string nat | Float real

type_synonym constraint = "(string \<times> pyval) list"

record criterion_kwargs =
  kw_y :: "int list"
  kw_x :: array2
  kw_cov_structure :: string
  kw_integration_method :: string

type_synonym 'r maximizer =
  "(params_frame \<Rightarrow> criterion_kwargs \<Rightarrow> exn + npfloat) \<Rightarrow> params_frame \<Rightarrow> string
     \<Rightarrow> criterion_kwargs \<Rightarrow> constraint list \<Rightarrow> exn + 'r"

definition criterion :: "integration_methods \<Rightarrow> params_frame \<Rightarrow> criterion_kwargs \<Rightarrow> exn + npfloat" where
  "criterion lib params kw =
     multinomial_probit_loglike lib params (kw_y kw) (kw_x kw) (kw_cov_structure kw)
       (kw_integration_method kw)"

definition multinomial_probit ::
  "parser \<Rightarrow> (nat \<Rightarrow> real) \<Rightarrow> integration_methods \<Rightarrow> 'r maximizer
     \<Rightarrow> string \<Rightarrow> frame \<Rightarrow> string \<Rightarrow> string \<Rightarrow> string \<Rightarrow> exn + 'r" where
  "multinomial_probit dmatrices rnd lib maximize formula data cov_structure integration_method
       algorithm =
     (if cov_structure \<noteq> ''iid'' \<and> cov_structure \<noteq> ''free''
      then Inl (SystemExit cov_structure_msg)
      else
        and_then (multinomial_processing dmatrices rnd formula data cov_structure) (\<lambda>(y, x, params).
        let params_df = [(''value'', params)];
            constraints =
              (if cov_structure = ''iid'' then []
               else [[(''loc'', Str ''covariance''), (''type'', Str ''covariance'')],
                     [(''loc'', Key ''covariance'' 0), (''type'', Str ''fixed''),
                      (''value'', Float 1.0)]])
        in maximize (criterion lib) params_df algorithm
             \<lparr>kw_y = y, kw_x = x, kw_cov_structure = cov_structure,
              kw_integration_method = integration_method\<rparr>
             constraints))"

section \<open>Shapes and example inputs\<close>

text \<open>A \<open>d \<times> d\<close> array: \<open>d\<close> rows of \<open>d\<close> entries each.\<close>

definition square :: "nat \<Rightarrow> real list list \<Rightarrow> bool" where
  "square d M \<longleftrightarrow> length M = d \<and> (\<forall>r \<in> set M. length r = d)"

text \<open>
  A parameter frame for three choices and one variable under "free": two coefficient
  blocks and the packed covariance \<open>1, 1/2, 2\<close>.
\<close>

definition params_free3 :: params_frame where
  "params_free3 = [(''value'',
     [((''choice_0'', Name ''betha_x''), 1 / 10), ((''choice_1'', Name ''betha_x''), 1 / 5),
      ((''covariance'', Pos 0), 1), ((''covariance'', Pos 1), 1 / 2),
      ((''covariance'', Pos 2), 2)])]"

text \<open>The same for two choices under "iid": one coefficient block, no covariance block.\<close>

definition params_iid2 :: params_frame where
  "params_iid2 = [(''value'', [((''choice_0'', Name ''betha_x''), 1 / 10)])]"

text \<open>Two observations of one variable, with the choices \<open>0\<close> and \<open>1\<close>.\<close>

definition x_two :: array2 where
  "x_two = Array2 1 [[1], [2]]"

text \<open>
  An integration module with one routine, whose probability for the first observation
  has underflowed to zero.
\<close>

definition lib_zero :: integration_methods where
  "lib_zero name =
     (if name = ''gauss_integration'' then Some (\<lambda>u_prime cov y. Inr [0, 1 / 2]) else None)"

text \<open>An integration module with two routines that differ in what they return.\<close>

definition lib_two :: integration_methods where
  "lib_two name =
     (if name = ''gauss_integration'' then Some (\<lambda>u_prime cov y. Inr [1 / 2, 1 / 2])
      else if name = ''mc_integration'' then Some (\<lambda>u_prime cov y. Inr [1 / 4, 1 / 4])
      else None)"

text \<open>
  Two observations of two variables with one coefficient block, and an integration
  module whose routine depends on all three of its arguments: the first utility of
  each observation divided by the first covariance entry plus the observed choice.
\<close>

definition x_22 :: array2 where
  "x_22 = Array2 2 [[1, 2], [3, 4]]"

definition params_two :: params_frame where
  "params_two = [(''value'',
     [((''choice_0'', Name ''betha_a''), 1 / 10), ((''choice_0'', Name ''betha_b''), 1 / 5)])]"

definition lib_ratio :: integration_methods where
  "lib_ratio name =
     (if name = ''ratio''
      then Some (\<lambda>u_prime cov y.
             Inr (map2 (\<lambda>row c. row ! 0 / (cov ! 0 ! 0 + of_int c)) u_prime y))
      else None)"

text \<open>Whether a string occurs in another as a contiguous piece.\<close>

definition occurs_in :: "string \<Rightarrow> string \<Rightarrow> bool" where
  "occurs_in sub s = list_ex (\<lambda>i. take (length sub) (drop i s) = sub) [0..<Suc (length s)]"

text \<open>The offset of row \<open>i\<close> in the packed lower triangle.\<close>

definition tri :: "nat \<Rightarrow> nat" where
  "tri n = n * (n + 1) div 2"

text \<open>The configuration error of the module is its \<^verbatim>\<open>sys.exit\<close>.\<close>

fun is_config_error :: "exn \<Rightarrow> bool" where
  "is_config_error (SystemExit msg) = True"
| "is_config_error e = False"

text \<open>
  A small stand-in for the formula parser on the formula \<^verbatim>\<open>y ~ x\<close>: it drops the
  incomplete rows and returns the column \<open>y\<close> as the outcome and an intercept with the
  column \<open>x\<close> as the design matrix; a frame without these columns is an error of the
  parser. A second parser rejects every input.
\<close>

definition column_index :: "string \<Rightarrow> string list \<Rightarrow> nat" where
  "column_index c cs = length (takeWhile (\<lambda>n. n \<noteq> c) cs)"

definition parse_y_x :: parser where
  "parse_y_x formula data =
     (if ''y'' \<notin> set (columns data) \<or> ''x'' \<notin> set (columns data)
      then Inl (ExternalError ''PatsyError'')
      else
        let complete = filter (\<lambda>r. None \<notin> set r) (cells data);
            iy = column_index ''y'' (columns data);
            ix = column_index ''x'' (columns data)
        in Inr (Design [''y''] (map (\<lambda>r. [the (r ! iy)]) complete),
                Design [''Intercept'', ''x''] (map (\<lambda>r. [1, the (r ! ix)]) complete)))"

definition parse_fails :: parser where
  "parse_fails formula data = Inl (ExternalError ''PatsyError'')"

text \<open>
  Two data sets with one incomplete row each: the categories \<open>0, 1, 2\<close>, and the
  categories \<open>1, 3, 5\<close> with gaps between them.
\<close>

definition data_012 :: frame where
  "data_012 = Frame [''y'', ''x'']
     [[Some 0, Some 2], [Some 1, Some 1], [Some 2, None], [Some 2, Some 0]]"


definition rnd_half :: "nat \<Rightarrow> real" where
  "rnd_half i = 1 / 2"

text \<open>
  Two stand-ins for the maximizer: one returns the constraints it was given, one
  evaluates the criterion once at the start parameters.
\<close>

definition report_constraints :: "(constraint list) maximizer" where
  "report_constraints crit params algorithm kwargs constraints = Inr constraints"

definition evaluate_once :: "npfloat maximizer" where
  "evaluate_once crit params algorithm kwargs constraints = crit params kwargs"

section \<open>Sequencing and slice assignment\<close>

lemma and_then_Inr_iff:
  "and_then m f = Inr v \<longleftrightarrow> (\<exists>u. m = Inr u \<and> f u = Inr v)"
  by (cases m) (simp_all add: and_then_def)

lemma and_then_Inr [simp]: "and_then (Inr u) f = f u"
  by (simp add: and_then_def)

lemma and_then_Inl [simp]: "and_then (Inl e) f = Inl e"
  by (simp add: and_then_def)

lemma broadcast_to_length:
  "broadcast_to k src = Inr out \<Longrightarrow> length out = k"
  by (auto simp: broadcast_to_def split: if_splits)

lemma broadcast_to_exact:
  "length src = k \<Longrightarrow> broadcast_to k src = Inr src"
  by (simp add: broadcast_to_def)

lemma square_update:
  "square d M \<Longrightarrow> length row = d \<Longrightarrow> square d (M[i := row])"
  unfolding square_def by (auto dest: subsetD [OF set_update_subset_insert])

lemma square_nth: "square d M \<Longrightarrow> i < d \<Longrightarrow> length (M ! i) = d"
  by (simp add: square_def)

lemma fill_lower_square:
  "fill_lower covariance is cov a = Inr cov' \<Longrightarrow> square d cov \<Longrightarrow> \<forall>i \<in> set is. i < d
     \<Longrightarrow> square d cov'"
proof (induction "is" arbitrary: cov a)
  case Nil
  then show ?case by simp
next
  case (Cons i "is")
  from Cons.prems(1) obtain src where
    src: "broadcast_to (i + 1) (take (i + 1) (drop a covariance)) = Inr src" and
    rest: "fill_lower covariance is (cov[i := src @ drop (i + 1) (cov ! i)]) (a + (i + 1)) = Inr cov'"
    by (auto simp: and_then_Inr_iff Let_def)
  have i: "i < d" using Cons.prems(3) by simp
  have "length (src @ drop (i + 1) (cov ! i)) = d"
    using broadcast_to_length [OF src] square_nth [OF Cons.prems(2) i] i by simp
  then have "square d (cov[i := src @ drop (i + 1) (cov ! i)])"
    using Cons.prems(2) by (rule square_update [rotated])
  then show ?case
    using Cons.IH [OF rest] Cons.prems(3) by simp
qed

lemma drop_conv_map_nth: "drop k xs = map ((!) xs) [k..<length xs]"
proof -
  have "drop k xs = drop k (map ((!) xs) [0..<length xs])"
    by (simp only: map_nth)
  also have "\<dots> = map ((!) xs) [k..<length xs]"
    by (simp add: drop_map)
  finally show ?thesis .
qed

lemma mirror_upper_upt:
  "length cov = d \<Longrightarrow> m \<le> d \<Longrightarrow>
     length (mirror_upper [m..<d] cov) = d \<and>
     (\<forall>i<d. mirror_upper [m..<d] cov ! i =
        (if i < m then cov ! i
         else take (i + 1) (cov ! i) @ map (\<lambda>r. cov ! r ! i) [i + 1..<d]))"
proof (induction "d - m" arbitrary: m cov)
  case 0
  then show ?case by simp
next
  case (Suc n)
  then have m: "m < d" by simp
  let ?row = "take (m + 1) (cov ! m) @ map (\<lambda>r. r ! m) (drop (m + 1) cov)"
  let ?cov1 = "cov[m := ?row]"
  have unfold: "mirror_upper [m..<d] cov = mirror_upper [Suc m..<d] ?cov1"
    using m by (simp add: upt_conv_Cons)
  have len1: "length ?cov1 = d" using Suc.prems by simp
  have n: "n = d - Suc m" using Suc.hyps(2) by simp
  have IH: "length (mirror_upper [Suc m..<d] ?cov1) = d \<and>
     (\<forall>i<d. mirror_upper [Suc m..<d] ?cov1 ! i =
        (if i < Suc m then ?cov1 ! i
         else take (i + 1) (?cov1 ! i) @ map (\<lambda>r. ?cov1 ! r ! i) [i + 1..<d]))"
    using Suc.hyps(1) [OF n len1] m by simp
  have row: "?row = take (m + 1) (cov ! m) @ map (\<lambda>r. cov ! r ! m) [m + 1..<d]"
    using Suc.prems(1) by (simp add: drop_conv_map_nth)
  show ?case
  proof (intro conjI allI impI)
    show "length (mirror_upper [m..<d] cov) = d" using IH unfold by simp
  next
    fix i assume i: "i < d"
    consider "i < m" | "i = m" | "m < i" by linarith
    then show "mirror_upper [m..<d] cov ! i =
        (if i < m then cov ! i
         else take (i + 1) (cov ! i) @ map (\<lambda>r. cov ! r ! i) [i + 1..<d])"
    proof cases
      case 1
      then show ?thesis using IH i unfold by simp
    next
      case 2
      then show ?thesis using IH i unfold row Suc.prems(1) by simp
    next
      case 3
      have "map (\<lambda>r. ?cov1 ! r ! i) [i + 1..<d] = map (\<lambda>r. cov ! r ! i) [i + 1..<d]"
        using 3 by (intro map_cong) auto
      then show ?thesis using IH i unfold 3 by simp
    qed
  qed
qed


lemma mirror_upper_entry:
  assumes "square d cov" "i < d" "j < d"
  shows "mirror_upper [0..<d] cov ! i ! j = (if j \<le> i then cov ! i ! j else cov ! j ! i)"
proof -
  have len: "length cov = d" using assms(1) by (simp add: square_def)
  have row: "mirror_upper [0..<d] cov ! i =
      take (i + 1) (cov ! i) @ map (\<lambda>r. cov ! r ! i) [i + 1..<d]"
    using mirror_upper_upt [OF len, of 0] assms(2) by simp
  have li: "length (cov ! i) = d" using assms(1,2) by (rule square_nth)
  show ?thesis
  proof (cases "j \<le> i")
    case True
    then show ?thesis using row li assms(2) by (simp add: nth_append)
  next
    case False
    then have "(take (i + 1) (cov ! i) @ map (\<lambda>r. cov ! r ! i) [i + 1..<d]) ! j
        = map (\<lambda>r. cov ! r ! i) [i + 1..<d] ! (j - (i + 1))"
      using li assms(2) by (simp add: nth_append)
    also have "\<dots> = cov ! j ! i"
    proof -
      have "j - (i + 1) < d - (i + 1)" using False assms(3) by arith
      moreover have "i + 1 + (j - (i + 1)) = j" using False by arith
      ultimately show ?thesis by (simp del: upt_Suc)
    qed
    finally show ?thesis using False row by simp
  qed
qed

lemma mirror_upper_square:
  assumes "square d cov"
  shows "square d (mirror_upper [0..<d] cov)"
proof -
  have len: "length cov = d" using assms by (simp add: square_def)
  note m = mirror_upper_upt [OF len, of 0]
  have "length (mirror_upper [0..<d] cov ! i) = d" if "i < d" for i
    using m that square_nth [OF assms that] by simp
  then show ?thesis
    using m by (auto simp: square_def in_set_conv_nth)
qed

lemma np_zeros_square: "square d (np_zeros d d)"
  by (simp add: square_def np_zeros_def)

lemma unpack_covariance_symmetric:
  assumes "unpack_covariance covariance d = Inr M"
  shows "square d M \<and> (\<forall>i<d. \<forall>j<d. M ! i ! j = M ! j ! i)"
proof -
  from assms obtain cov where
    fill: "fill_lower covariance [0..<d] (np_zeros d d) 0 = Inr cov" and
    M: "M = mirror_upper [0..<d] cov"
    by (auto simp: unpack_covariance_def and_then_Inr_iff)
  have sq: "square d cov"
    using fill np_zeros_square by (rule fill_lower_square) simp
  show ?thesis
    using mirror_upper_square [OF sq] mirror_upper_entry [OF sq] M by auto
qed

lemma iid_matrix_entry:
  "i < d \<Longrightarrow> j < d \<Longrightarrow> mat_add (np_eye d) (np_ones d d) ! i ! j = (if i = j then 2 else 1)"
  by (simp add: mat_add_def np_eye_def np_ones_def)

lemma iid_matrix_square: "square d (mat_add (np_eye d) (np_ones d d))"
  by (auto simp: square_def mat_add_def np_eye_def np_ones_def set_zip)


section \<open>Symmetry of the covariance matrix\<close>

text \<open>
  C5. Whatever the covariance structure and the parameter frame, a covariance matrix
  that the likelihood evaluator builds (lines 136-151) has \<open>n_choices - 1\<close> rows and
  columns and is symmetric: \<open>M[i][j] = M[j][i]\<close> for all \<open>i\<close> and \<open>j\<close>.
\<close>

theorem covariance_block_symmetric:
  "covariance_block cov_structure params n_choices = Inr M \<Longrightarrow>
     length M = n_choices - 1 \<and> (\<forall>r \<in> set M. length r = n_choices - 1) \<and>
     (\<forall>i < n_choices - 1. \<forall>j < n_choices - 1. M ! i ! j = M ! j ! i)"
proof (cases "cov_structure = ''iid''")
  case True
  assume "covariance_block cov_structure params n_choices = Inr M"
  with True have M: "M = mat_add (np_eye (n_choices - 1)) (np_ones (n_choices - 1) (n_choices - 1))"
    by (simp add: covariance_block_def split: if_splits)
  show ?thesis
    using iid_matrix_square [of "n_choices - 1"] unfolding M
    by (simp add: square_def iid_matrix_entry)
next
  case False
  assume "covariance_block cov_structure params n_choices = Inr M"
  with False obtain covariance where "unpack_covariance covariance (n_choices - 1) = Inr M"
    by (auto simp: covariance_block_def and_then_Inr_iff split: if_splits)
  from unpack_covariance_symmetric [OF this] show ?thesis
    by (simp add: square_def)
qed

theorem covariance_block_symmetric_witness:
  "covariance_block ''free'' params_free3 3 = Inr [[1, 1 / 2], [1 / 2, 2]] \<and>
   length [[1, 1 / 2], [1 / 2, 2::real]] = 3 - 1 \<and>
   [[1, 1 / 2], [1 / 2, 2::real]] ! 0 ! 1 = [[1, 1 / 2], [1 / 2, 2]] ! 1 ! 0"
proof -
  have h: "covariance_block ''free'' params_free3 3 = Inr [[1, 1 / 2], [1 / 2, 2]]"
    by code_simp
  show ?thesis using covariance_block_symmetric [OF h] h by simp
qed


section \<open>Packing and unpacking the covariance\<close>

lemma tri_Suc: "tri (Suc n) = tri n + n + 1"
  by (simp add: tri_def)

lemma tri_mono: "m \<le> n \<Longrightarrow> tri m \<le> tri n"
  unfolding tri_def by (intro div_le_mono mult_le_mono) simp_all

lemma fill_lower_upt:
  "length cov = d \<Longrightarrow> m \<le> d \<Longrightarrow> tri d \<le> length covariance \<Longrightarrow>
     \<exists>cov'. fill_lower covariance [m..<d] cov (tri m) = Inr cov' \<and> length cov' = d \<and>
       (\<forall>i<d. cov' ! i =
          (if i < m then cov ! i
           else take (i + 1) (drop (tri i) covariance) @ drop (i + 1) (cov ! i)))"
proof (induction "d - m" arbitrary: m cov)
  case 0
  then show ?case by simp
next
  case (Suc n)
  then have m: "m < d" by simp
  let ?src = "take (m + 1) (drop (tri m) covariance)"
  let ?cov1 = "cov[m := ?src @ drop (m + 1) (cov ! m)]"
  have "tri (Suc m) \<le> length covariance"
    using tri_mono [of "Suc m" d] m Suc.prems(3) by simp
  then have "length ?src = m + 1"
    by (simp add: tri_Suc)
  then have bc: "broadcast_to (m + 1) ?src = Inr ?src"
    by (rule broadcast_to_exact)
  have unfold: "fill_lower covariance [m..<d] cov (tri m) =
      fill_lower covariance [Suc m..<d] ?cov1 (tri (Suc m))"
    using m bc by (simp add: upt_conv_Cons tri_Suc add.assoc)
  have len1: "length ?cov1 = d" using Suc.prems by simp
  have n: "n = d - Suc m" using Suc.hyps(2) by simp
  from Suc.hyps(1) [OF n len1 _ Suc.prems(3)] m obtain cov' where
    run: "fill_lower covariance [Suc m..<d] ?cov1 (tri (Suc m)) = Inr cov'" and
    len: "length cov' = d" and
    rows: "\<forall>i<d. cov' ! i =
          (if i < Suc m then ?cov1 ! i
           else take (i + 1) (drop (tri i) covariance) @ drop (i + 1) (?cov1 ! i))"
    by auto
  have "cov' ! i =
          (if i < m then cov ! i
           else take (i + 1) (drop (tri i) covariance) @ drop (i + 1) (cov ! i))"
    if "i < d" for i
  proof -
    consider "i < m" | "i = m" | "m < i" by linarith
    then show ?thesis
    proof cases
      case 1
      then show ?thesis using rows that by simp
    next
      case 2
      then show ?thesis using rows that Suc.prems(1) by simp
    next
      case 3
      then show ?thesis using rows that by simp
    qed
  qed
  then show ?case using unfold run len by simp
qed

lemma concat_if_singleton:
  "concat (map (\<lambda>j. if P j then [f j] else []) xs) = map f (filter P xs)"
  by (induction xs) simp_all

lemma filter_le_upt: "i < d \<Longrightarrow> filter (\<lambda>j. j \<le> i) [0..<d] = [0..<i + 1]"
proof -
  assume "i < d"
  then have "[0..<d] = [0..<i + 1] @ [i + 1..<d]"
    using upt_add_eq_append [of 0 "i + 1" "d - (i + 1)"] by simp
  then have "filter (\<lambda>j. j \<le> i) [0..<d] =
      filter (\<lambda>j. j \<le> i) [0..<i + 1] @ filter (\<lambda>j. j \<le> i) [i + 1..<d]"
    by (simp only: filter_append)
  also have "filter (\<lambda>j. j \<le> i) [0..<i + 1] = [0..<i + 1]"
    by (rule filter_True) simp
  also have "filter (\<lambda>j. j \<le> i) [i + 1..<d] = []"
    by (rule filter_False) simp
  finally show ?thesis by simp
qed

lemma lower_triangle_rows:
  "lower_triangle M d = concat (map (\<lambda>i. map (\<lambda>j. M ! i ! j) [0..<i + 1]) [0..<d])"
  unfolding lower_triangle_def
  by (rule arg_cong [where f = concat], rule map_cong)
    (simp_all add: concat_if_singleton filter_le_upt del: upt_Suc)

lemma concat_slices: "concat (map (\<lambda>i. take (i + 1) (drop (tri i) v)) [0..<d]) = take (tri d) v"
proof (induction d)
  case 0
  then show ?case by (simp add: tri_def)
next
  case (Suc d)
  have "take (tri d + (d + 1)) v = take (tri d) v @ take (d + 1) (drop (tri d) v)"
    by (rule take_add)
  with Suc show ?case by (simp add: tri_Suc add.assoc)
qed

text \<open>
  C6. For every packed vector of length \<open>d(d+1)/2\<close>, lines 142-151 (fill row \<open>i\<close> of
  the lower triangle from the next \<open>i + 1\<close> entries, advance the offset, then mirror into
  the upper triangle) return a matrix, and reading its lower triangle row by row, as
  lines 65-69 do, gives the packed vector back. The binary case \<open>d = 1\<close> is included.
\<close>

theorem unpack_covariance_roundtrip:
  assumes "length covariance = d * (d + 1) div 2"
  shows "\<exists>M. unpack_covariance covariance d = Inr M \<and> lower_triangle M d = covariance"
proof -
  have len: "tri d \<le> length covariance" using assms by (simp add: tri_def)
  have z: "length (np_zeros d d) = d" by (simp add: np_zeros_def)
  from fill_lower_upt [OF z _ len, of 0] obtain cov where
    fill: "fill_lower covariance [0..<d] (np_zeros d d) 0 = Inr cov" and
    lcov: "length cov = d" and
    rows: "\<forall>i<d. cov ! i = take (i + 1) (drop (tri i) covariance) @ drop (i + 1) (np_zeros d d ! i)"
    by (auto simp: tri_def)
  let ?M = "mirror_upper [0..<d] cov"
  have M: "unpack_covariance covariance d = Inr ?M"
    using fill by (simp add: unpack_covariance_def)
  have sq: "square d cov"
    using fill np_zeros_square by (rule fill_lower_square) simp
  have row: "map (\<lambda>j. ?M ! i ! j) [0..<i + 1] = take (i + 1) (drop (tri i) covariance)"
    if i: "i < d" for i
  proof -
    have "tri (Suc i) \<le> length covariance"
      using tri_mono [of "Suc i" d] i len by simp
    then have l: "length (take (i + 1) (drop (tri i) covariance)) = i + 1"
      by (simp add: tri_Suc)
    have "map (\<lambda>j. ?M ! i ! j) [0..<i + 1] = map (\<lambda>j. cov ! i ! j) [0..<i + 1]"
      using mirror_upper_entry [OF sq i] i by (intro map_cong) auto
    also have "\<dots> = map (\<lambda>j. take (i + 1) (drop (tri i) covariance) ! j) [0..<i + 1]"
      using rows i l by (intro map_cong) (auto simp: nth_append)
    also have "\<dots> = take (i + 1) (drop (tri i) covariance)"
      using map_nth [of "take (i + 1) (drop (tri i) covariance)"] l by simp
    finally show ?thesis .
  qed
  have "map (\<lambda>i. map (\<lambda>j. ?M ! i ! j) [0..<i + 1]) [0..<d] =
      map (\<lambda>i. take (i + 1) (drop (tri i) covariance)) [0..<d]"
  proof (rule map_cong [OF refl])
    fix i assume "i \<in> set [0..<d]"
    then have "i < d" by simp
    then show "map (\<lambda>j. ?M ! i ! j) [0..<i + 1] = take (i + 1) (drop (tri i) covariance)"
      by (rule row)
  qed
  then have "lower_triangle ?M d =
      concat (map (\<lambda>i. take (i + 1) (drop (tri i) covariance)) [0..<d])"
    by (simp only: lower_triangle_rows)
  also have "\<dots> = take (tri d) covariance"
    by (rule concat_slices)
  also have "\<dots> = covariance"
    using assms by (simp add: tri_def)
  finally show ?thesis using M by blast
qed

theorem unpack_covariance_roundtrip_witness:
  "length [5::real] = 1 * (1 + 1) div 2 \<and>
   (\<exists>M. unpack_covariance [5] 1 = Inr M \<and> lower_triangle M 1 = [5]) \<and>
   length [1, 1 / 2, 2::real] = 2 * (2 + 1) div 2 \<and>
   (\<exists>M. unpack_covariance [1, 1 / 2, 2] 2 = Inr M \<and> lower_triangle M 2 = [1, 1 / 2, 2])"
  using unpack_covariance_roundtrip [of "[5]" 1]
    unpack_covariance_roundtrip [of "[1, 1 / 2, 2]" 2]
  by simp



section \<open>The fixed covariance under "iid"\<close>

text \<open>
  C9. Under "iid" the covariance matrix of the likelihood is \<open>I + 11\<^sup>t\<close> of dimension
  \<open>(n_choices - 1) \<times> (n_choices - 1)\<close>, twos on the diagonal and ones elsewhere, whatever
  the parameter frame holds; for three choices it is \<open>[[2, 1], [1, 2]]\<close>. (Without any
  choice the dimension would be negative and numpy raises.)
\<close>

theorem covariance_block_iid:
  "covariance_block ''iid'' params n_choices =
     (if n_choices = 0 then Inl (ValueError ''negative dimensions are not allowed'')
      else Inr (map (\<lambda>i. map (\<lambda>j. if i = j then 2 else 1) [0..<n_choices - 1]) [0..<n_choices - 1]))
   \<and> covariance_block ''iid'' params 3 = Inr [[2, 1], [1, 2]]"
proof -
  have "mat_add (np_eye d) (np_ones d d) = map (\<lambda>i. map (\<lambda>j. if i = j then 2 else 1) [0..<d]) [0..<d]" for d
    by (rule nth_equalityI) (auto simp: mat_add_def np_eye_def np_ones_def intro!: nth_equalityI)
  then have a: "covariance_block ''iid'' params n_choices =
     (if n_choices = 0 then Inl (ValueError ''negative dimensions are not allowed'')
      else Inr (map (\<lambda>i. map (\<lambda>j. if i = j then 2 else 1) [0..<n_choices - 1]) [0..<n_choices - 1]))"
    for n_choices
    by (simp add: covariance_block_def)
  have "covariance_block ''iid'' params 3 = Inr [[2, 1], [1, 2]]"
    unfolding a by (simp add: upt_rec)
  with a show ?thesis by simp
qed

theorem covariance_block_iid_witness:
  "covariance_block ''iid'' params_free3 3 = Inr [[2, 1], [1, 2]] \<and>
   covariance_block ''iid'' [] 3 = Inr [[2, 1], [1, 2]]"
  using covariance_block_iid [of params_free3 3, THEN conjunct2]
    covariance_block_iid [of "[]" 3, THEN conjunct2]
  by (rule conjI)

section \<open>Rounding to float64\<close>

lemma pow2_powr: "pow2 k = 2 powr (of_int k)"
proof (cases "0 \<le> k")
  case True
  then show ?thesis
    by (simp add: pow2_def powr_realpow [symmetric])
next
  case False
  have "(2::real) powr (of_int k) = 1 / 2 powr (of_int (- k))"
    by (simp add: powr_minus_divide)
  also have "\<dots> = 1 / 2 ^ nat (- k)"
    using False by (simp add: powr_realpow [symmetric])
  finally show ?thesis using False by (simp add: pow2_def)
qed

lemma one_less_two: "(1::real) < 2"
  by simp

lemma pow2_pos: "0 < pow2 k"
  by (simp add: pow2_powr)

lemma round_half_even_of_int: "round_half_even (of_int n) = n"
  by (simp add: round_half_even_def)



lemma floor_log2_bounds:
  assumes "0 < x"
  shows "2 powr (of_int \<lfloor>log 2 x\<rfloor>) \<le> x" and "x < 2 powr (of_int (\<lfloor>log 2 x\<rfloor> + 1))"
proof -
  have "of_int \<lfloor>log 2 x\<rfloor> \<le> log 2 x" by simp
  with assms show "2 powr (of_int \<lfloor>log 2 x\<rfloor>) \<le> x"
    by (subst (asm) le_log_iff) simp_all
  have "log 2 x < of_int (\<lfloor>log 2 x\<rfloor> + 1)" by linarith
  with assms show "x < 2 powr (of_int (\<lfloor>log 2 x\<rfloor> + 1))"
    by (subst (asm) log_less_iff) simp_all
qed


lemma pow2_nonpos: "k \<le> 0 \<Longrightarrow> pow2 k = 1 / 2 ^ nat (- k)"
  by (cases "k = 0") (simp_all add: pow2_def)

lemma fl64_finite_range:
  assumes "- (2 ^ 1024) < r" "r < 2 ^ 1024" "x \<noteq> 0"
    "r = of_int (round_half_even (x / pow2 (float64_exponent x - 52))) * pow2 (float64_exponent x - 52)"
  shows "fl64 x = Finite r"
  using assms by (simp add: fl64_def Let_def)

lemma fl64_of_int:
  assumes "0 \<le> k" "k \<le> 2 ^ 53"
  shows "fl64 (of_int k) = Finite (of_int k)"
proof (cases "k = 0")
  case True
  then show ?thesis by (simp add: fl64_def)
next
  case False
  define x :: real where "x = of_int k"
  have x1: "1 \<le> x" using assms(1) False by (simp add: x_def)
  have x53: "x \<le> 2 ^ 53"
  proof -
    have "real_of_int k \<le> real_of_int (2 ^ 53)" using assms(2) by (simp only: of_int_le_iff)
    then show ?thesis by (simp add: x_def)
  qed
  define e where "e = \<lfloor>log 2 x\<rfloor>"
  have xpos: "0 < x" using x1 by simp
  have lo: "2 powr (of_int e) \<le> x" and hi: "x < 2 powr (of_int (e + 1))"
    using floor_log2_bounds [OF xpos] by (simp_all add: e_def)
  have e0: "0 \<le> e"
  proof -
    have "0 \<le> log 2 x" using x1 by simp
    then show ?thesis by (simp add: e_def)
  qed
  have e53: "e \<le> 53"
  proof -
    have "2 powr (real_of_int e) \<le> (2::real) ^ 53" using lo x53 by (rule order_trans)
    then have "2 powr (real_of_int e) \<le> (2::real) powr 53" by simp
    then have "real_of_int e \<le> 53"
      by (rule iffD1 [OF powr_le_cancel_iff [OF one_less_two]])
    then show ?thesis by simp
  qed
  have "\<bar>x\<bar> = x" using xpos by simp
  then have "float64_exponent x = max (- 1022) e"
    by (simp only: float64_exponent_def e_def)
  also have "\<dots> = e" using e0 by simp
  finally have ex: "float64_exponent x = e" .
  have "of_int (round_half_even (x / pow2 (e - 52))) * pow2 (e - 52) = x"
  proof (cases "e \<le> 52")
    case True
    then have q: "pow2 (e - 52) = 1 / 2 ^ nat (52 - e)"
      using pow2_nonpos [of "e - 52"] by simp
    have "x / pow2 (e - 52) = of_int (k * 2 ^ nat (52 - e))"
      by (simp add: q x_def)
    then have "round_half_even (x / pow2 (e - 52)) = k * 2 ^ nat (52 - e)"
      by (simp only: round_half_even_of_int)
    then show ?thesis by (simp add: q x_def)
  next
    case False
    then have e: "e = 53" using e53 by simp
    then have "2 ^ 53 \<le> x" using lo by simp
    then have x: "x = 2 ^ 53" using x53 by simp
    have q: "pow2 (e - 52) = 2" by (simp add: e pow2_def)
    have "x / pow2 (e - 52) = of_int (2 ^ 52)" by (simp add: q x)
    then have "round_half_even (x / pow2 (e - 52)) = 2 ^ 52"
      by (simp only: round_half_even_of_int)
    then show ?thesis by (simp add: q x)
  qed
  then have r: "x = of_int (round_half_even (x / pow2 (float64_exponent x - 52)))
      * pow2 (float64_exponent x - 52)"
    by (simp add: ex)
  have "- (2 ^ 1024) < x" using xpos by (rule less_trans [rotated]) simp
  moreover have "x < 2 ^ 1024"
  proof -
    have "(2::real) ^ 53 < 2 ^ 1024" by (rule power_strict_increasing) simp_all
    with x53 show ?thesis by simp
  qed
  moreover have "x \<noteq> 0" using xpos by simp
  ultimately have "fl64 x = Finite x" using r by (rule fl64_finite_range)
  then show ?thesis by (simp add: x_def)
qed


lemma fl64_numeral:
  "numeral n \<le> (2 ^ 53 :: int) \<Longrightarrow> fl64 (numeral n) = Finite (numeral n)"
  using fl64_of_int [of "numeral n"] by simp

lemma fl64_one: "fl64 1 = Finite 1"
  using fl64_of_int [of 1] by simp

lemma fl64_zero: "fl64 0 = Finite 0"
  by (simp add: fl64_def)

lemma fl64_power2:
  assumes "n \<le> 1023"
  shows "fl64 (2 ^ n) = Finite (2 ^ n)"
proof -
  define x :: real where "x = 2 ^ n"
  have xpos: "0 < x" by (simp add: x_def)
  have xp: "x = 2 powr (real n)" by (simp add: x_def powr_realpow)
  have "log 2 x = real n" by (simp add: xp)
  then have "\<lfloor>log 2 x\<rfloor> = int n" by simp
  moreover have "\<bar>x\<bar> = x" using xpos by simp
  ultimately have ex: "float64_exponent x = int n"
    by (simp add: float64_exponent_def)
  have "x / pow2 (int n - 52) = 2 powr (real n) / 2 powr (real_of_int (int n - 52))"
    by (simp only: xp pow2_powr)
  also have "\<dots> = 2 powr (real n - real_of_int (int n - 52))"
    by (simp only: powr_diff)
  also have "\<dots> = 2 powr 52" by simp
  finally have quot: "x / pow2 (int n - 52) = of_int (2 ^ 52)" by simp
  have "of_int (round_half_even (x / pow2 (int n - 52))) * pow2 (int n - 52)
      = x / pow2 (int n - 52) * pow2 (int n - 52)"
    unfolding quot by (simp only: round_half_even_of_int)
  also have "\<dots> = x" using pow2_pos [of "int n - 52"] by simp
  finally have r: "x = of_int (round_half_even (x / pow2 (float64_exponent x - 52)))
      * pow2 (float64_exponent x - 52)"
    by (simp add: ex)
  have "- (2 ^ 1024) < x" using xpos by (rule less_trans [rotated]) simp
  moreover have "x < 2 ^ 1024"
    unfolding x_def using assms by (intro power_strict_increasing) simp_all
  moreover have "x \<noteq> 0" using xpos by simp
  ultimately have "fl64 x = Finite x" using r by (rule fl64_finite_range)
  then show ?thesis by (simp add: x_def)
qed




text \<open>
  Two inputs at the edges. A difference of \<open>2\<^sup>6\<^sup>3\<close> is outside the int64 range and is cast
  to the smallest int64; the difference of \<open>2\<close> and \<open>2\<^sup>-\<^sup>6\<^sup>0\<close> is rounded to \<open>2\<close> before the
  cast.
\<close>

lemma cast_out_of_range: "astype_int64 (float64_sub (2 ^ 63) 0) = - (2 ^ 63)"
proof -
  have "fl64 (2 ^ 63) = Finite (2 ^ 63)" by (rule fl64_power2) simp
  then show ?thesis by (simp add: float64_sub_def astype_int64_def)
qed

lemma subtraction_rounds: "astype_int64 (float64_sub 2 (1 / 2 ^ 60)) = 2"
proof -
  define x :: real where "x = 2 - 1 / 2 ^ 60"
  have x1: "1 \<le> x" and x2: "x < 2" by (simp_all add: x_def)
  have "0 \<le> log 2 x" using x1 by simp
  moreover have "log 2 x < 1" using x1 x2 by (simp add: log_less_iff)
  ultimately have "\<lfloor>log 2 x\<rfloor> = 0" by linarith
  moreover have "\<bar>x\<bar> = x" using x1 by simp
  ultimately have ex: "float64_exponent x = 0" by (simp add: float64_exponent_def)
  have q: "pow2 (float64_exponent x - 52) = 1 / 2 ^ 52" by (simp add: ex pow2_def)
  have quot: "x / (1 / 2 ^ 52) = 2 ^ 53 - 1 / 2 ^ 8" by (simp add: x_def)
  have fl: "\<lfloor>(2::real) ^ 53 - 1 / 2 ^ 8\<rfloor> = 2 ^ 53 - 1"
    by (rule floor_unique) simp_all
  have rnd: "round_half_even (2 ^ 53 - 1 / 2 ^ 8) = 2 ^ 53"
    unfolding round_half_even_def fl by (simp add: Let_def)
  have "of_int (round_half_even (x / pow2 (float64_exponent x - 52)))
      * pow2 (float64_exponent x - 52) = real_of_int (2 ^ 53) * (1 / 2 ^ 52)"
    by (simp only: q quot rnd)
  also have "\<dots> = 2" by simp
  finally have "of_int (round_half_even (x / pow2 (float64_exponent x - 52)))
      * pow2 (float64_exponent x - 52) = (2::real)" .
  then have "fl64 x = Finite 2"
    using x1 by (simp add: fl64_def Let_def)
  then show ?thesis by (simp add: float64_sub_def x_def astype_int64_def)
qed

section \<open>Data preparation on the example data\<close>

lemma processing_iid_from_parts:
  assumes "parse_cleaned dm f d = Inr (y, x)"
    and "and_then (np_random_rand rnd
            (int (length (names x)) * (int (length (np_unique (concat (matrix y)))) - 1)))
          (\<lambda>draws. pd_Series (map (\<lambda>v. v * 0.1) draws)
             (coefficient_labels (names x) (length (np_unique (concat (matrix y))))))
         = Inr params"
    and "to_int64_vector (sub_min y) = Inr yv"
  shows "multinomial_processing dm rnd f d ''iid'' =
           Inr (yv, Array2 (length (names x)) (matrix x), params)"
proof -
  from assms(2) obtain draws where
    "np_random_rand rnd
        (int (length (names x)) * (int (length (np_unique (concat (matrix y)))) - 1)) = Inr draws"
    "pd_Series (map (\<lambda>v. v * 0.1) draws)
        (coefficient_labels (names x) (length (np_unique (concat (matrix y))))) = Inr params"
    by (auto simp: and_then_Inr_iff)
  then show ?thesis
    using assms(1,3) by (simp add: multinomial_processing_def Let_def)
qed

lemma processing_free_from_parts:
  assumes "parse_cleaned dm f d = Inr (y, x)"
    and "length (np_unique (concat (matrix y))) \<noteq> 0"
    and "and_then (np_random_rand rnd
            (int (length (names x)) * (int (length (np_unique (concat (matrix y)))) - 1)))
          (\<lambda>draws. pd_Series
             (map (\<lambda>v. v * 0.1) draws
                @ lower_triangle (np_eye (length (np_unique (concat (matrix y))) - 1))
                    (length (np_unique (concat (matrix y))) - 1))
             (coefficient_labels (names x) (length (np_unique (concat (matrix y))))
                @ map (\<lambda>i. (''covariance'', Pos i))
                    [0..<nat ((int (length (np_unique (concat (matrix y))))
                       * (int (length (np_unique (concat (matrix y)))) - 1)) div 2)]))
         = Inr params"
    and "to_int64_vector (sub_min y) = Inr yv"
  shows "multinomial_processing dm rnd f d ''free'' =
           Inr (yv, Array2 (length (names x)) (matrix x), params)"
proof -
  from assms(3) obtain draws where
    "np_random_rand rnd
        (int (length (names x)) * (int (length (np_unique (concat (matrix y)))) - 1)) = Inr draws"
    "pd_Series
             (map (\<lambda>v. v * 0.1) draws
                @ lower_triangle (np_eye (length (np_unique (concat (matrix y))) - 1))
                    (length (np_unique (concat (matrix y))) - 1))
             (coefficient_labels (names x) (length (np_unique (concat (matrix y))))
                @ map (\<lambda>i. (''covariance'', Pos i))
                    [0..<nat ((int (length (np_unique (concat (matrix y))))
                       * (int (length (np_unique (concat (matrix y)))) - 1)) div 2)])
       = Inr params"
    by (auto simp: and_then_Inr_iff)
  then show ?thesis
    using assms(1,2,4) by (simp add: multinomial_processing_def Let_def)
qed

lemma parse_data_012:
  "parse_cleaned parse_y_x ''y ~ x'' data_012 =
     Inr (Design [''y''] [[0], [1], [2]],
          Design [''Intercept'', ''x''] [[1, 2], [1, 1], [1, 0]])"
  by code_simp


lemma codes_012: "to_int64_vector (sub_min (Design [''y''] [[0], [1], [2]])) = Inr [0, 1, 2]"
  by (simp add: to_int64_vector_def sub_min_def list_min_def float64_sub_def astype_int64_def
      fl64_numeral fl64_one fl64_zero)


lemma processing_data_012_iid:
  "multinomial_processing parse_y_x rnd_half ''y ~ x'' data_012 ''iid'' =
     Inr ([0, 1, 2], Array2 2 [[1, 2], [1, 1], [1, 0]],
       [((''choice_0'', Name ''betha_Intercept''), 1 / 20),
        ((''choice_0'', Name ''betha_x''), 1 / 20),
        ((''choice_1'', Name ''betha_Intercept''), 1 / 20),
        ((''choice_1'', Name ''betha_x''), 1 / 20)])"
proof -
  have "multinomial_processing parse_y_x rnd_half ''y ~ x'' data_012 ''iid'' =
     Inr ([0, 1, 2],
       Array2 (length (names (Design [''Intercept'', ''x''] [[1, 2], [1, 1], [1, 0]])))
         (matrix (Design [''Intercept'', ''x''] [[1, 2], [1, 1], [1, 0]])),
       [((''choice_0'', Name ''betha_Intercept''), 1 / 20),
        ((''choice_0'', Name ''betha_x''), 1 / 20),
        ((''choice_1'', Name ''betha_Intercept''), 1 / 20),
        ((''choice_1'', Name ''betha_x''), 1 / 20)])"
    by (rule processing_iid_from_parts [OF parse_data_012 _ codes_012]) code_simp
  then show ?thesis by simp
qed

lemma processing_data_012_free:
  "multinomial_processing parse_y_x rnd_half ''y ~ x'' data_012 ''free'' =
     Inr ([0, 1, 2], Array2 2 [[1, 2], [1, 1], [1, 0]],
       [((''choice_0'', Name ''betha_Intercept''), 1 / 20),
        ((''choice_0'', Name ''betha_x''), 1 / 20),
        ((''choice_1'', Name ''betha_Intercept''), 1 / 20),
        ((''choice_1'', Name ''betha_x''), 1 / 20),
        ((''covariance'', Pos 0), 1), ((''covariance'', Pos 1), 0),
        ((''covariance'', Pos 2), 1)])"
proof -
  have "multinomial_processing parse_y_x rnd_half ''y ~ x'' data_012 ''free'' =
     Inr ([0, 1, 2],
       Array2 (length (names (Design [''Intercept'', ''x''] [[1, 2], [1, 1], [1, 0]])))
         (matrix (Design [''Intercept'', ''x''] [[1, 2], [1, 1], [1, 0]])),
       [((''choice_0'', Name ''betha_Intercept''), 1 / 20),
        ((''choice_0'', Name ''betha_x''), 1 / 20),
        ((''choice_1'', Name ''betha_Intercept''), 1 / 20),
        ((''choice_1'', Name ''betha_x''), 1 / 20),
        ((''covariance'', Pos 0), 1), ((''covariance'', Pos 1), 0),
        ((''covariance'', Pos 2), 1)])"
    by (rule processing_free_from_parts [OF parse_data_012 _ _ codes_012]; code_simp)
  then show ?thesis by simp
qed


lemma covariance_block_two_choices:
  "covariance_block ''iid'' params_iid2 (length (np_unique [0, 1::int])) = Inr [[2]]"
  by code_simp

lemma bethas_block_two_choices:
  "bethas_block params_iid2 (n_cols x_two) (length (np_unique [0, 1::int])) = Inr [[1 / 10, 0]]"
  by code_simp

section \<open>Validation of the covariance structure\<close>

text \<open>
  C2 as stated fails in one point: the configuration error does not identify the
  invalid value. All three entry points raise the same \<^verbatim>\<open>SystemExit\<close> for the value
  "other", the top-level call raises the very same one for "IID", and neither value
  occurs in the message.
\<close>

theorem invalid_cov_structure_message_counterexample: "multinomial_processing parse_y_x rnd_half ''y ~ x'' data_012 ''other''
     = Inl (SystemExit ''cov_structure must either be iid or free'')
   \<and> multinomial_probit_loglikeobs lib_zero params_iid2 [0, 1] x_two ''other'' ''gauss_integration''
     = Inl (SystemExit ''cov_structure must either be iid or free'')
   \<and> multinomial_probit parse_y_x rnd_half lib_zero evaluate_once ''y ~ x'' data_012 ''other''
       ''gauss_integration'' ''scipy_lbfgsb''
     = Inl (SystemExit ''cov_structure must either be iid or free'')
   \<and> multinomial_probit parse_y_x rnd_half lib_zero evaluate_once ''y ~ x'' data_012 ''IID''
       ''gauss_integration'' ''scipy_lbfgsb''
     = Inl (SystemExit ''cov_structure must either be iid or free'')
   \<and> \<not> occurs_in ''other'' ''cov_structure must either be iid or free''
   \<and> \<not> occurs_in ''IID'' ''cov_structure must either be iid or free''"
proof -
  have "\<not> occurs_in ''other'' ''cov_structure must either be iid or free''"
    by code_simp
  moreover have "\<not> occurs_in ''IID'' ''cov_structure must either be iid or free''"
    by code_simp
  ultimately show ?thesis
    by (simp add: multinomial_processing_def multinomial_probit_loglikeobs_def
        multinomial_probit_def cov_structure_msg_def)
qed

text \<open>
  C2, amended. For every \<open>cov_structure\<close> other than "iid" and "free", data preparation,
  the likelihood evaluation and the top-level \<open>multinomial_probit\<close> each stop with the
  configuration error, a \<^verbatim>\<open>SystemExit\<close> with the fixed message that names \<open>cov_structure\<close>
  and the two values it may take, the same for every invalid value. The check comes
  before any other work: the result is the same whatever the parser, the random source,
  the integration module and the maximizer would do, so the top-level call neither
  parses nor returns a partial result.
\<close>

theorem invalid_cov_structure_exits:
  assumes "cov_structure \<noteq> ''iid''" "cov_structure \<noteq> ''free''"
  shows "multinomial_processing dmatrices rnd formula data cov_structure
           = Inl (SystemExit ''cov_structure must either be iid or free'')
       \<and> multinomial_probit_loglikeobs lib params y x cov_structure integration_method
           = Inl (SystemExit ''cov_structure must either be iid or free'')
       \<and> multinomial_probit dmatrices rnd lib maximize formula data cov_structure
           integration_method algorithm
           = Inl (SystemExit ''cov_structure must either be iid or free'')"
  using assms
  by (simp add: multinomial_processing_def multinomial_probit_loglikeobs_def
      multinomial_probit_def cov_structure_msg_def)

theorem invalid_cov_structure_exits_witness:
  "''other'' \<noteq> ''iid'' \<and> ''other'' \<noteq> ''free'' \<and>
   multinomial_processing parse_fails rnd_half ''y ~ x'' data_012 ''other''
     = Inl (SystemExit ''cov_structure must either be iid or free'') \<and>
   multinomial_probit_loglikeobs lib_zero [] [0, 1] x_two ''other'' ''gauss_integration''
     = Inl (SystemExit ''cov_structure must either be iid or free'') \<and>
   multinomial_probit parse_fails rnd_half lib_zero evaluate_once ''y ~ x'' data_012 ''other''
       ''gauss_integration'' ''scipy_lbfgsb''
     = Inl (SystemExit ''cov_structure must either be iid or free'')"
  using invalid_cov_structure_exits [where cov_structure = "''other''" and dmatrices = parse_fails and rnd = rnd_half
      and formula = "''y ~ x''" and data = data_012 and lib = lib_zero and params = "[]"
      and y = "[0, 1]" and x = x_two and integration_method = "''gauss_integration''"
      and maximize = evaluate_once and algorithm = "''scipy_lbfgsb''"]
  by simp

section \<open>The constraints handed to the maximizer\<close>

text \<open>
  C3. Once data preparation has returned, \<open>multinomial_probit\<close> calls the maximizer with
  an empty constraint list under "iid". Under "free" the list has exactly two entries:
  one of type "covariance" on the block "covariance" of the parameter vector, and one
  of type "fixed" on the entry \<open>("covariance", 0)\<close> with the value \<open>1.0\<close>.
\<close>

theorem multinomial_probit_constraints:
  "(multinomial_processing dmatrices rnd formula data ''iid'' = Inr (y, x, params) \<longrightarrow>
      multinomial_probit dmatrices rnd lib maximize formula data ''iid'' integration_method algorithm
        = maximize (criterion lib) [(''value'', params)] algorithm
            \<lparr>kw_y = y, kw_x = x, kw_cov_structure = ''iid'',
             kw_integration_method = integration_method\<rparr> [])
 \<and> (multinomial_processing dmatrices rnd formula data ''free'' = Inr (y, x, params) \<longrightarrow>
      multinomial_probit dmatrices rnd lib maximize formula data ''free'' integration_method algorithm
        = maximize (criterion lib) [(''value'', params)] algorithm
            \<lparr>kw_y = y, kw_x = x, kw_cov_structure = ''free'',
             kw_integration_method = integration_method\<rparr>
            [[(''loc'', Str ''covariance''), (''type'', Str ''covariance'')],
             [(''loc'', Key ''covariance'' 0), (''type'', Str ''fixed''), (''value'', Float 1)]])"
  by (simp add: multinomial_probit_def)

theorem multinomial_probit_constraints_witness:
  "multinomial_probit parse_y_x rnd_half lib_zero report_constraints ''y ~ x'' data_012 ''iid''
      ''gauss_integration'' ''scipy_lbfgsb'' = Inr []
 \<and> multinomial_probit parse_y_x rnd_half lib_zero report_constraints ''y ~ x'' data_012 ''free''
      ''gauss_integration'' ''scipy_lbfgsb''
     = Inr [[(''loc'', Str ''covariance''), (''type'', Str ''covariance'')],
            [(''loc'', Key ''covariance'' 0), (''type'', Str ''fixed''), (''value'', Float 1)]]"
proof -
  note t = multinomial_probit_constraints [where dmatrices = parse_y_x and rnd = rnd_half and formula = "''y ~ x''"
      and data = data_012 and lib = lib_zero and maximize = report_constraints
      and integration_method = "''gauss_integration''" and algorithm = "''scipy_lbfgsb''"]
  show ?thesis
    using t [THEN conjunct1, rule_format, OF processing_data_012_iid] t [THEN conjunct2, rule_format, OF processing_data_012_free]
    by (simp add: report_constraints_def)
qed


section \<open>Dispatch to the integration routine\<close>

lemma np_dot_shape:
  "length (np_dot x B m) = length (rows x) \<and> (\<forall>row \<in> set (np_dot x B m). length row = m)"
  by (auto simp: np_dot_def)

lemma sum_list_map2_mult:
  assumes "length xs = n" "length ys = n"
  shows "sum_list (map2 (*) xs ys) = (\<Sum>k<n. xs ! k * ys ! (k::nat) :: real)"
proof -
  have "sum_list (map2 (*) xs ys) = (\<Sum>k = 0..<length (map2 (*) xs ys). map2 (*) xs ys ! k)"
    by (rule sum_list_sum_nth)
  also have "\<dots> = (\<Sum>k = 0..<n. xs ! k * ys ! k)"
    using assms by (intro sum.cong) simp_all
  finally show ?thesis by (simp add: atLeast0LessThan)
qed

lemma np_dot_entry:
  assumes "i < length (rows x)" "j < m" "length (rows x ! i) = length B"
  shows "np_dot x B m ! i ! j = (\<Sum>k<length B. rows x ! i ! k * B ! k ! j)"
proof -
  have "np_dot x B m ! i ! j = sum_list (map2 (*) (rows x ! i) (map (\<lambda>r. r ! j) B))"
    using assms(1,2) by (simp add: np_dot_def)
  also have "\<dots> = (\<Sum>k<length B. rows x ! i ! k * map (\<lambda>r. r ! j) B ! k)"
    using assms(3) by (intro sum_list_map2_mult) simp_all
  also have "\<dots> = (\<Sum>k<length B. rows x ! i ! k * B ! k ! j)"
    by (intro sum.cong) simp_all
  finally show ?thesis .
qed

lemma loglikeobs_valid:
  assumes "cov_structure = ''iid'' \<or> cov_structure = ''free''"
  shows "multinomial_probit_loglikeobs lib params y x cov_structure integration_method =
     and_then (covariance_block cov_structure params (length (np_unique y))) (\<lambda>cov.
     and_then (bethas_block params (n_cols x) (length (np_unique y))) (\<lambda>bethas.
     and_then (getattr lib integration_method) (\<lambda>f.
     and_then (f (np_dot x bethas (length (np_unique y))) cov y) (\<lambda>choice_prob_obs.
       Inr (map np_log choice_prob_obs)))))"
proof -
  have "cov_structure \<noteq> ''gauss_integration''" using assms by auto
  then show ?thesis
    using assms
    by (auto simp: multinomial_probit_loglikeobs_def Let_def and_then_def split: sum.splits)
qed

text \<open>
  C4. For a valid \<open>cov_structure\<close> and every \<open>integration_method\<close>, the likelihood
  evaluator looks the routine up under the name \<open>integration_method\<close> and calls it with
  \<open>(u_prime, cov, y)\<close>. Here \<open>u_prime = x \<cdot> bethas\<close> is the matrix product: it has one row
  per observation and \<open>n_choices\<close> columns, and its entry \<open>(i, j)\<close> is the sum over \<open>k\<close> of
  \<open>x[i][k] * bethas[k][j]\<close>. The branch on \<open>cov_structure = "gauss_integration"\<close> is
  never taken: replacing the routine stored under that name changes nothing for any
  other \<open>integration_method\<close>.
\<close>

theorem loglikeobs_dispatch_by_name:
  assumes "cov_structure = ''iid'' \<or> cov_structure = ''free''"
  shows "multinomial_probit_loglikeobs lib params y x cov_structure integration_method =
       and_then (covariance_block cov_structure params (length (np_unique y))) (\<lambda>cov.
       and_then (bethas_block params (n_cols x) (length (np_unique y))) (\<lambda>bethas.
       and_then (getattr lib integration_method) (\<lambda>f.
       and_then (f (np_dot x bethas (length (np_unique y))) cov y) (\<lambda>choice_prob_obs.
         Inr (map np_log choice_prob_obs)))))
     \<and> (integration_method \<noteq> ''gauss_integration'' \<longrightarrow>
          multinomial_probit_loglikeobs (lib(''gauss_integration'' := g)) params y x
              cov_structure integration_method
            = multinomial_probit_loglikeobs lib params y x cov_structure integration_method)
     \<and> length (np_dot x B (length (np_unique y))) = length (rows x)
     \<and> (\<forall>row \<in> set (np_dot x B (length (np_unique y))). length row = length (np_unique y))
     \<and> (\<forall>i < length (rows x). \<forall>j < length (np_unique y).
          length (rows x ! i) = length B \<longrightarrow>
            np_dot x B (length (np_unique y)) ! i ! j
              = (\<Sum>k<length B. rows x ! i ! k * B ! k ! j))"
proof (intro conjI impI)
  show "multinomial_probit_loglikeobs lib params y x cov_structure integration_method =
       and_then (covariance_block cov_structure params (length (np_unique y))) (\<lambda>cov.
       and_then (bethas_block params (n_cols x) (length (np_unique y))) (\<lambda>bethas.
       and_then (getattr lib integration_method) (\<lambda>f.
       and_then (f (np_dot x bethas (length (np_unique y))) cov y) (\<lambda>choice_prob_obs.
         Inr (map np_log choice_prob_obs)))))"
    using assms by (rule loglikeobs_valid)
next
  assume "integration_method \<noteq> ''gauss_integration''"
  then have "getattr (lib(''gauss_integration'' := g)) integration_method
      = getattr lib integration_method"
    by (simp add: getattr_def)
  then show "multinomial_probit_loglikeobs (lib(''gauss_integration'' := g)) params y x
              cov_structure integration_method
            = multinomial_probit_loglikeobs lib params y x cov_structure integration_method"
    by (simp only: loglikeobs_valid [OF assms])
next
  show "length (np_dot x B (length (np_unique y))) = length (rows x)"
    by (simp add: np_dot_shape)
next
  show "\<forall>row \<in> set (np_dot x B (length (np_unique y))). length row = length (np_unique y)"
    by (simp add: np_dot_shape)
next
  show "\<forall>i < length (rows x). \<forall>j < length (np_unique y).
          length (rows x ! i) = length B \<longrightarrow>
            np_dot x B (length (np_unique y)) ! i ! j
              = (\<Sum>k<length B. rows x ! i ! k * B ! k ! j)"
    by (simp add: np_dot_entry)
qed

theorem loglikeobs_dispatch_by_name_witness:
  "(''iid'' = ''iid'' \<or> ''iid'' = ''free'') \<and>
   multinomial_probit_loglikeobs lib_two params_iid2 [0, 1] x_two ''iid'' ''mc_integration''
     = Inr [Finite (ln (1 / 4)), Finite (ln (1 / 4))] \<and>
   multinomial_probit_loglikeobs lib_two params_iid2 [0, 1] x_two ''iid'' ''gauss_integration''
     = Inr [Finite (ln (1 / 2)), Finite (ln (1 / 2))] \<and>
   np_dot x_22 [[1 / 10, 0], [1 / 5, 0]] 2 = [[1 / 2, 0], [11 / 10, 0]] \<and>
   multinomial_probit_loglikeobs lib_ratio params_two [0, 1] x_22 ''iid'' ''ratio''
     = Inr [Finite (ln (1 / 4)), Finite (ln (11 / 30))]"
proof -
  have v: "''iid'' = ''iid'' \<or> ''iid'' = ''free''" by simp
  note mc = loglikeobs_dispatch_by_name [where cov_structure = "''iid''" and lib = lib_two
      and params = params_iid2 and y = "[0, 1]" and x = x_two
      and integration_method = "''mc_integration''", OF v, THEN conjunct1]
  note gauss = loglikeobs_dispatch_by_name [where cov_structure = "''iid''" and lib = lib_two
      and params = params_iid2 and y = "[0, 1]" and x = x_two
      and integration_method = "''gauss_integration''", OF v, THEN conjunct1]
  note ratio = loglikeobs_dispatch_by_name [where cov_structure = "''iid''" and lib = lib_ratio
      and params = params_two and y = "[0, 1]" and x = x_22
      and integration_method = "''ratio''", OF v, THEN conjunct1]
  have c: "covariance_block ''iid'' params_two (length (np_unique [0, 1::int])) = Inr [[2]]"
    by code_simp
  have b: "bethas_block params_two (n_cols x_22) (length (np_unique [0, 1::int]))
      = Inr [[1 / 10, 0], [1 / 5, 0]]"
    by code_simp
  have u: "np_dot x_22 [[1 / 10, 0], [1 / 5, 0]] (length (np_unique [0, 1::int]))
      = [[1 / 2, 0], [11 / 10, 0]]"
    by code_simp
  have u2: "np_dot x_22 [[1 / 10, 0], [1 / 5, 0]] 2 = [[1 / 2, 0], [11 / 10, 0]]"
    by code_simp
  have "multinomial_probit_loglikeobs lib_ratio params_two [0, 1] x_22 ''iid'' ''ratio''
     = Inr [Finite (ln (1 / 4)), Finite (ln (11 / 30))]"
    using ratio by (simp add: c b u getattr_def lib_ratio_def np_log_def)
  moreover have "multinomial_probit_loglikeobs lib_two params_iid2 [0, 1] x_two ''iid''
      ''mc_integration'' = Inr [Finite (ln (1 / 4)), Finite (ln (1 / 4))]"
    using mc
    by (simp add: covariance_block_two_choices bethas_block_two_choices getattr_def
        lib_two_def np_log_def)
  moreover have "multinomial_probit_loglikeobs lib_two params_iid2 [0, 1] x_two ''iid''
      ''gauss_integration'' = Inr [Finite (ln (1 / 2)), Finite (ln (1 / 2))]"
    using gauss
    by (simp add: covariance_block_two_choices bethas_block_two_choices getattr_def
        lib_two_def np_log_def)
  ultimately show ?thesis using u2 by simp
qed

section \<open>The logarithm of the probabilities\<close>

text \<open>
  C1. The claim is that the logarithm is taken of the probabilities clipped to the floor
  \<open>1e-250\<close>, so that every entry of the result is finite even at probability zero. The
  module calls \<^verbatim>\<open>clip\<close> and drops what it returns: when the routine hands back the
  probabilities \<open>0\<close> and \<open>1/2\<close>, the first entry of the result is \<open>-inf\<close>.
\<close>

theorem loglikeobs_zero_probability:
  "multinomial_probit_loglikeobs lib_zero params_iid2 [0, 1] x_two ''iid'' ''gauss_integration''
     = Inr [NegInf, Finite (ln (1 / 2))]
   \<and> \<not> is_finite NegInf"
  by (simp add: multinomial_probit_loglikeobs_def Let_def covariance_block_two_choices
      bethas_block_two_choices getattr_def lib_zero_def np_log_def)

text \<open>What line 167 computes and discards is finite under the logarithm.\<close>

lemma clipped_log_finite:
  "\<forall>l \<in> set (map np_log (ndarray_clip (1 / 10 ^ 250) probs)). is_finite l"
proof -
  have "0 < max (1 / 10 ^ 250) p" for p :: real
    by (simp add: less_max_iff_disj)
  then have "is_finite (np_log (max (1 / 10 ^ 250) p))" for p
    unfolding np_log_def by (simp add: not_less [symmetric] less_imp_neq [THEN not_sym])
  then show ?thesis by (simp add: ndarray_clip_def)
qed

section \<open>The coefficient matrix\<close>

lemma and_then_assoc:
  "and_then (and_then m f) g = and_then m (\<lambda>v. and_then (f v) g)"
  by (cases m) simp_all

lemma assign_column_reference:
  assumes "length src = length B" "\<forall>r \<in> set B. length r = m \<and> r ! (m - 1) = 0" "i < m - 1"
  shows "length (assign_column B i src) = length B \<and>
         (\<forall>r \<in> set (assign_column B i src). length r = m \<and> r ! (m - 1) = 0)"
  using assms by (auto simp: assign_column_def dest!: set_zip_leftD)

lemma fill_bethas_reference:
  "fill_bethas params n_var is B = Inr B' \<Longrightarrow> length B = n_var \<Longrightarrow>
     \<forall>r \<in> set B. length r = m \<and> r ! (m - 1) = 0 \<Longrightarrow> \<forall>i \<in> set is. i < m - 1 \<Longrightarrow>
     length B' = n_var \<and> (\<forall>r \<in> set B'. length r = m \<and> r ! (m - 1) = 0)"
proof (induction "is" arbitrary: B)
  case Nil
  then show ?case by simp
next
  case (Cons i "is")
  from Cons.prems(1) obtain blk src where
    src: "broadcast_to n_var blk = Inr src" and
    rest: "fill_bethas params n_var is (assign_column B i src) = Inr B'"
    by (auto simp: and_then_Inr_iff)
  have "length src = length B"
    using broadcast_to_length [OF src] Cons.prems(2) by simp
  moreover have "i < m - 1" using Cons.prems(4) by simp
  ultimately have step: "length (assign_column B i src) = length B \<and>
      (\<forall>r \<in> set (assign_column B i src). length r = m \<and> r ! (m - 1) = 0)"
    using Cons.prems(3) by (intro assign_column_reference)
  show ?case
    using Cons.IH [OF rest] step Cons.prems(2,4) by simp
qed

lemma fill_bethas_cong:
  "\<forall>i \<in> set is.
      and_then (frame_getitem params ''value'') (\<lambda>value. series_getitem value (''choice_'' @ str_nat i))
    = and_then (frame_getitem params' ''value'') (\<lambda>value. series_getitem value (''choice_'' @ str_nat i))
   \<Longrightarrow> fill_bethas params n_var is B = fill_bethas params' n_var is B"
proof (induction "is" arbitrary: B)
  case Nil
  then show ?case by simp
next
  case (Cons i "is")
  have step: "fill_bethas p n_var (i # is) B =
      and_then (and_then (frame_getitem p ''value'')
                  (\<lambda>value. series_getitem value (''choice_'' @ str_nat i)))
        (\<lambda>blk. and_then (broadcast_to n_var blk)
           (\<lambda>src. fill_bethas p n_var is (assign_column B i src)))" for p
    by (simp add: and_then_assoc)
  show ?case
    unfolding step using Cons.prems Cons.IH by simp
qed

text \<open>
  C8. Whatever the parameter frame holds, the \<open>n_var \<times> n_choices\<close> coefficient matrix
  built on lines 153-156 has its last column, the one of the reference choice, equal
  to zero. Only the blocks \<open>choice_0\<close>, ..., \<open>choice_(n_choices - 2)\<close> are read: two frames
  that agree on these blocks give the same matrix.
\<close>

theorem bethas_block_reference_column:
  "(bethas_block params n_var n_choices = Inr bethas \<longrightarrow> 0 < n_choices \<longrightarrow>
      length bethas = n_var \<and>
      (\<forall>row \<in> set bethas. length row = n_choices \<and> row ! (n_choices - 1) = 0))
 \<and> ((\<forall>i < n_choices - 1.
       and_then (frame_getitem params ''value'') (\<lambda>value. series_getitem value (''choice_'' @ str_nat i))
     = and_then (frame_getitem params' ''value'') (\<lambda>value. series_getitem value (''choice_'' @ str_nat i)))
      \<longrightarrow> bethas_block params n_var n_choices = bethas_block params' n_var n_choices)"
proof (rule conjI)
  show "bethas_block params n_var n_choices = Inr bethas \<longrightarrow> 0 < n_choices \<longrightarrow>
      length bethas = n_var \<and>
      (\<forall>row \<in> set bethas. length row = n_choices \<and> row ! (n_choices - 1) = 0)"
  proof (intro impI)
    assume run: "bethas_block params n_var n_choices = Inr bethas" and pos: "0 < n_choices"
    have run': "fill_bethas params n_var [0..<n_choices - 1] (np_zeros n_var n_choices) = Inr bethas"
      using run by (simp add: bethas_block_def)
    have len: "length (np_zeros n_var n_choices) = n_var"
      by (simp add: np_zeros_def)
    have zero: "\<forall>r \<in> set (np_zeros n_var n_choices). length r = n_choices \<and> r ! (n_choices - 1) = 0"
      using pos by (simp add: np_zeros_def)
    have idx: "\<forall>i \<in> set [0..<n_choices - 1]. i < n_choices - 1"
      by simp
    show "length bethas = n_var \<and>
      (\<forall>row \<in> set bethas. length row = n_choices \<and> row ! (n_choices - 1) = 0)"
      using run' len zero idx by (rule fill_bethas_reference)
  qed
next
  show "(\<forall>i < n_choices - 1.
       and_then (frame_getitem params ''value'') (\<lambda>value. series_getitem value (''choice_'' @ str_nat i))
     = and_then (frame_getitem params' ''value'') (\<lambda>value. series_getitem value (''choice_'' @ str_nat i)))
      \<longrightarrow> bethas_block params n_var n_choices = bethas_block params' n_var n_choices"
    unfolding bethas_block_def by (intro impI fill_bethas_cong) simp
qed

theorem bethas_block_reference_column_witness:
  "bethas_block params_free3 1 2 = Inr [[1 / 10, 0]] \<and> (0::nat) < 2 \<and>
   length [[1 / 10, 0::real]] = 1 \<and> [1 / 10, 0::real] ! (2 - 1) = 0 \<and>
   bethas_block params_free3 1 2 = bethas_block params_iid2 1 2"
proof -
  have run: "bethas_block params_free3 1 2 = Inr [[1 / 10, 0]]"
    by code_simp
  have same: "\<forall>i < (2::nat) - 1.
       and_then (frame_getitem params_free3 ''value'') (\<lambda>value. series_getitem value (''choice_'' @ str_nat i))
     = and_then (frame_getitem params_iid2 ''value'') (\<lambda>value. series_getitem value (''choice_'' @ str_nat i))"
    by (simp add: params_free3_def params_iid2_def frame_getitem_def series_getitem_def str_nat.simps)
  show ?thesis
    using bethas_block_reference_column [of params_free3 1 2 "[[1 / 10, 0]]" params_iid2] run same by simp
qed

section \<open>An unknown integration method\<close>

lemma broadcast_to_error: "broadcast_to k src = Inl e \<Longrightarrow> \<not> is_config_error e"
  by (auto simp: broadcast_to_def split: if_splits)

lemma and_then_Inl_iff:
  "and_then m f = Inl e \<longleftrightarrow> m = Inl e \<or> (\<exists>v. m = Inr v \<and> f v = Inl e)"
  by (cases m) simp_all

lemma fill_lower_error: "fill_lower covariance is cov a = Inl e \<Longrightarrow> \<not> is_config_error e"
  by (induction "is" arbitrary: cov a)
     (auto simp: and_then_Inl_iff Let_def dest: broadcast_to_error)

lemma frame_getitem_error: "frame_getitem df col = Inl e \<Longrightarrow> \<not> is_config_error e"
  by (auto simp: frame_getitem_def split: option.splits)

lemma series_getitem_error: "series_getitem s key = Inl e \<Longrightarrow> \<not> is_config_error e"
  by (auto simp: series_getitem_def Let_def split: if_splits)

lemma fill_bethas_error: "fill_bethas params n_var is B = Inl e \<Longrightarrow> \<not> is_config_error e"
  by (induction "is" arbitrary: B)
     (auto simp: and_then_Inl_iff
           dest: broadcast_to_error frame_getitem_error series_getitem_error)

lemma covariance_block_error:
  "covariance_block cov_structure params n_choices = Inl e \<Longrightarrow> \<not> is_config_error e"
  by (auto simp: covariance_block_def unpack_covariance_def and_then_Inl_iff
           split: if_splits
           dest: fill_lower_error frame_getitem_error series_getitem_error)

text \<open>
  C10. Let \<open>cov_structure\<close> be valid and \<open>integration_method\<close> be a name the integration
  module does not define. Then the likelihood evaluator fails, and not with the
  configuration error: once the covariance and the coefficients are built it fails
  with the \<^verbatim>\<open>AttributeError\<close> of the attribute lookup. Neither data preparation, which
  does not take the name, nor \<open>multinomial_probit\<close> checks it: whenever data
  preparation returns, the maximizer is called with the name among the keyword
  arguments of the criterion.
\<close>

theorem unknown_integration_method:
  assumes valid: "cov_structure = ''iid'' \<or> cov_structure = ''free''"
      and missing: "lib integration_method = None"
  shows "(\<exists>e. multinomial_probit_loglikeobs lib params y x cov_structure integration_method = Inl e
            \<and> \<not> is_config_error e)
     \<and> (covariance_block cov_structure params (length (np_unique y)) = Inr cov \<longrightarrow>
        bethas_block params (n_cols x) (length (np_unique y)) = Inr bethas \<longrightarrow>
          multinomial_probit_loglikeobs lib params y x cov_structure integration_method
            = Inl (AttributeError integration_method))
     \<and> (multinomial_processing dmatrices rnd formula data cov_structure = Inr (yv, xm, start) \<longrightarrow>
          multinomial_probit dmatrices rnd lib maximize formula data cov_structure
              integration_method algorithm
            = maximize (criterion lib) [(''value'', start)] algorithm
                \<lparr>kw_y = yv, kw_x = xm, kw_cov_structure = cov_structure,
                 kw_integration_method = integration_method\<rparr>
                (if cov_structure = ''iid'' then []
                 else [[(''loc'', Str ''covariance''), (''type'', Str ''covariance'')],
                       [(''loc'', Key ''covariance'' 0), (''type'', Str ''fixed''),
                        (''value'', Float 1)]]))"
proof (intro conjI impI)
  have ng: "cov_structure \<noteq> ''gauss_integration''" using valid by auto
  have look: "getattr lib integration_method = Inl (AttributeError integration_method)"
    using missing by (simp add: getattr_def)
  let ?m = "length (np_unique y)"
  have eq: "multinomial_probit_loglikeobs lib params y x cov_structure integration_method =
     and_then (covariance_block cov_structure params ?m) (\<lambda>cov.
     and_then (bethas_block params (n_cols x) ?m) (\<lambda>bethas. Inl (AttributeError integration_method)))"
    using valid ng by (auto simp: multinomial_probit_loglikeobs_def Let_def look)
  show "\<exists>e. multinomial_probit_loglikeobs lib params y x cov_structure integration_method = Inl e
            \<and> \<not> is_config_error e"
  proof (cases "covariance_block cov_structure params ?m")
    case (Inl e)
    then show ?thesis using covariance_block_error [OF Inl] by (simp add: eq)
  next
    case c: (Inr cov)
    show ?thesis
    proof (cases "bethas_block params (n_cols x) ?m")
      case (Inl e)
      then have "\<not> is_config_error e"
        unfolding bethas_block_def by (rule fill_bethas_error)
      then show ?thesis using c Inl by (simp add: eq)
    next
      case (Inr B)
      then show ?thesis using c by (simp add: eq)
    qed
  qed
  show "multinomial_probit_loglikeobs lib params y x cov_structure integration_method
            = Inl (AttributeError integration_method)"
    if "covariance_block cov_structure params ?m = Inr cov"
       "bethas_block params (n_cols x) ?m = Inr bethas"
    using that by (simp add: eq)
next
  assume "multinomial_processing dmatrices rnd formula data cov_structure = Inr (yv, xm, start)"
  then show "multinomial_probit dmatrices rnd lib maximize formula data cov_structure
              integration_method algorithm
            = maximize (criterion lib) [(''value'', start)] algorithm
                \<lparr>kw_y = yv, kw_x = xm, kw_cov_structure = cov_structure,
                 kw_integration_method = integration_method\<rparr>
                (if cov_structure = ''iid'' then []
                 else [[(''loc'', Str ''covariance''), (''type'', Str ''covariance'')],
                       [(''loc'', Key ''covariance'' 0), (''type'', Str ''fixed''),
                        (''value'', Float 1)]])"
    using valid by (auto simp: multinomial_probit_def)
qed


theorem unknown_integration_method_witness:
  "lib_zero ''no_such_method'' = None \<and>
   multinomial_probit_loglikeobs lib_zero params_iid2 [0, 1] x_two ''iid'' ''no_such_method''
     = Inl (AttributeError ''no_such_method'') \<and>
   multinomial_probit parse_y_x rnd_half lib_zero evaluate_once ''y ~ x'' data_012 ''iid''
       ''no_such_method'' ''scipy_lbfgsb''
     = Inl (AttributeError ''no_such_method'')"
proof -
  have m: "lib_zero ''no_such_method'' = None"
    by (simp add: lib_zero_def)
  note c = covariance_block_two_choices
  note b = bethas_block_two_choices
  have v: "''iid'' = ''iid'' \<or> ''iid'' = ''free''" by simp
  note t = unknown_integration_method [where lib = lib_zero and integration_method = "''no_such_method''"
      and cov_structure = "''iid''", OF v m]
  have one: "multinomial_probit_loglikeobs lib_zero params_iid2 [0, 1] x_two ''iid'' ''no_such_method''
     = Inl (AttributeError ''no_such_method'')"
    using t [where params = params_iid2 and y = "[0, 1]" and x = x_two,
        THEN conjunct2, THEN conjunct1, rule_format, OF c b] by simp
  have c3: "covariance_block ''iid'' [(''value'', 
      [((''choice_0'', Name ''betha_Intercept''), 1 / 20),
       ((''choice_0'', Name ''betha_x''), 1 / 20),
       ((''choice_1'', Name ''betha_Intercept''), 1 / 20),
       ((''choice_1'', Name ''betha_x''), 1 / 20)])] (length (np_unique [0, 1, 2::int])) = Inr [[2, 1], [1, 2]]"
    by code_simp
  have b3: "bethas_block [(''value'', 
      [((''choice_0'', Name ''betha_Intercept''), 1 / 20),
       ((''choice_0'', Name ''betha_x''), 1 / 20),
       ((''choice_1'', Name ''betha_Intercept''), 1 / 20),
       ((''choice_1'', Name ''betha_x''), 1 / 20)])] (n_cols (Array2 2 [[1, 2], [1, 1], [1, 0]])) (length (np_unique [0, 1, 2::int])) = Inr [[1 / 20, 1 / 20, 0], [1 / 20, 1 / 20, 0]]"
    by code_simp
  have two: "multinomial_probit parse_y_x rnd_half lib_zero evaluate_once ''y ~ x'' data_012 ''iid''
       ''no_such_method'' ''scipy_lbfgsb''
     = Inl (AttributeError ''no_such_method'')"
    using t [where maximize = evaluate_once and algorithm = "''scipy_lbfgsb''",
        THEN conjunct2, THEN conjunct2, rule_format, OF processing_data_012_iid]
      t [THEN conjunct2, THEN conjunct1, rule_format, OF c3 b3]
    by (simp add: evaluate_once_def criterion_def multinomial_probit_loglike_def)
  show ?thesis using m one two by simp
qed

section \<open>The choice codes returned by data preparation\<close>









end
